theory Spec2Isabelle
  imports Main "HOL-Library.AList"
begin

section \<open>The MultiProvider registry of typescript/sdk/src/provider.ts\<close>

text \<open>
  The class \<open>MultiProvider\<close> keeps five JavaScript \<open>Map\<close>s keyed by the numeric domain
  id. The model is a record of the five maps, every method is a function that takes the
  registry (\<open>this\<close>) and returns what the method returns together with the registry as
  the method leaves it. A \<open>throw\<close> is a value: read-only methods return \<open>error + 'a\<close>,
  mutating methods return a \<open>completion\<close> paired with the registry at the moment the
  method is left, so a method that throws half way keeps the mutations made before.
\<close>

subsection \<open>Data\<close>

text \<open>
  \<open>Domain\<close> is the \<open>{ id, name }\<close> object of \<open>./types\<close>; the field \<open>id\<close> is written
  \<open>id'\<close> here. \<open>NameOrDomain = ChainName | number\<close> is a tagged union: \<open>typeof x ===
  'string'\<close> is the test for \<open>Name\<close>. Domain ids are whole numbers, so a JavaScript
  \<open>number\<close> is an \<open>int\<close>; \<open>NaN\<close> and fractions are left out.
\<close>

record Domain =
  id' :: int
  name :: string

datatype NameOrDomain = Name string | Num int

text \<open>
  Providers and signers are objects of the ethers library. A provider is an opaque
  handle; the two constructors called by \<open>registerRpcProvider\<close> are kept apart.
\<close>

datatype provider =
    Handle nat
  | StaticCeloJsonRpcProvider string
  | StaticJsonRpcProvider string

text \<open>
  A signer carries an optional provider reference (\<open>signer.provider\<close>) and either
  supports \<open>connect\<close> or throws from it.
\<close>

record signer =
  ident :: string
  provider :: "provider option"
  rebindable :: bool

text \<open>
  Modelled from the spec: the method \<open>connect\<close> of \<open>ethers.Signer\<close> is code of the
  ethers library. Section 6 of the specification describes it as an optional "rebind to
  a different provider" that returns a new bound handle or fails. \<open>None\<close> is the
  exception thrown by a signer that cannot be rebound (ethers' \<open>JsonRpcSigner\<close>); a
  signer that can (ethers' \<open>Wallet\<close>, \<open>VoidSigner\<close>) returns a copy of itself attached to
  the given provider.
\<close>

definition connect :: "signer \<Rightarrow> provider \<Rightarrow> signer option" where
  "connect s p = (if rebindable s then Some (s\<lparr>provider := Some p\<rparr>) else None)"

text \<open>\<open>new ethers.Wallet(privkey)\<close>: a signer that can be rebound and has no provider yet.\<close>

definition Wallet :: "string \<Rightarrow> signer" where
  "Wallet privkey = \<lparr>ident = privkey, provider = None, rebindable = True\<rparr>"

text \<open>\<open>ethers.Overrides\<close> is a bag of transaction parameters; \<open>{}\<close> is the empty list.\<close>

type_synonym Overrides = "(string \<times> int) list"

text \<open>
  The error kinds of the specification. The source throws plain \<open>Error\<close> objects:
  \<open>DomainNotFound\<close> is "Domain not found: ..." of \<open>resolveDomain\<close>,
  \<open>NotFound tname\<close> is "tname not found: ..." of \<open>mustGetFromMap\<close>,
  \<open>MissingProvider\<close> is "Must have a provider before registering signer",
  \<open>SignerHasNoProvider\<close> is "Signer does not permit reconnect and has no provider",
  \<open>ConnectionNotFound\<close> is "Connection not found: ..." and
  \<open>InvariantViolation\<close> is "signer was missing provider. How?".
\<close>

datatype error =
    DomainNotFound
  | NotFound string
  | MissingProvider
  | SignerHasNoProvider
  | ConnectionNotFound
  | InvariantViolation

datatype completion = Returned | Threw error

text \<open>
  A JavaScript \<open>Map\<close> iterates in insertion order and \<open>set\<close> on a present key replaces
  the value in place. \<open>domains\<close> is iterated, so it is an association list written with
  \<open>AList.update\<close> and read with \<open>map_of\<close>; the other four maps are only looked up.
\<close>

record MultiProvider =
  domains :: "(int \<times> Domain) list"
  providers :: "int \<rightharpoonup> provider"
  signers :: "int \<rightharpoonup> signer"
  overrides :: "int \<rightharpoonup> Overrides"
  confirmations :: "int \<rightharpoonup> int"

definition newMultiProvider :: MultiProvider where
  "newMultiProvider =
     \<lparr>domains = [], providers = Map.empty, signers = Map.empty,
      overrides = Map.empty, confirmations = Map.empty\<rparr>"

subsection \<open>Domain directory\<close>

text \<open>
  \<open>String.prototype.toLowerCase\<close> on the ASCII letters; chain names are ASCII and an
  Isabelle \<open>char\<close> is a byte.
\<close>

definition toLowerCase_char :: "char \<Rightarrow> char" where
  "toLowerCase_char c =
     (let n = (of_char c :: nat) in if 65 \<le> n \<and> n \<le> 90 then char_of (n + 32) else c)"

definition toLowerCase :: "string \<Rightarrow> string" where
  "toLowerCase s = map toLowerCase_char s"

definition registerDomain :: "MultiProvider \<Rightarrow> Domain \<Rightarrow> MultiProvider" where
  "registerDomain this domain =
     this\<lparr>domains := AList.update (id' domain) domain (domains this)\<rparr>"

definition domainNumbers :: "MultiProvider \<Rightarrow> int list" where
  "domainNumbers this = map fst (domains this)"

definition remoteDomainNumbers :: "MultiProvider \<Rightarrow> int \<Rightarrow> int list" where
  "remoteDomainNumbers this domain = filter (\<lambda>d. d \<noteq> domain) (domainNumbers this)"

definition domainNames :: "MultiProvider \<Rightarrow> string list" where
  "domainNames this = map (\<lambda>domain. name domain) (map snd (domains this))"

text \<open>\<open>Map.prototype.has\<close>.\<close>

definition has :: "('k \<rightharpoonup> 'v) \<Rightarrow> 'k \<Rightarrow> bool" where
  "has m k = (m k \<noteq> None)"

definition missingProviders :: "MultiProvider \<Rightarrow> int list" where
  "missingProviders this =
     (let numbers = domainNumbers this
      in filter (\<lambda>number. has (providers this) number) numbers)"

definition resolveDomain :: "MultiProvider \<Rightarrow> NameOrDomain \<Rightarrow> error + int" where
  "resolveDomain this nameOrDomain =
     (case nameOrDomain of
        Name s \<Rightarrow>
          (case filter (\<lambda>domain. toLowerCase (name domain) = toLowerCase s)
                       (map snd (domains this)) of
             [] \<Rightarrow> Inl DomainNotFound
           | domain # _ \<Rightarrow> Inr (id' domain))
      | Num n \<Rightarrow> Inr n)"

definition knownDomain :: "MultiProvider \<Rightarrow> NameOrDomain \<Rightarrow> bool" where
  "knownDomain this nameOrDomain =
     (case resolveDomain this nameOrDomain of Inl e \<Rightarrow> False | Inr d \<Rightarrow> True)"

subsection \<open>Shared lookup helpers\<close>

definition setMap ::
  "MultiProvider \<Rightarrow> NameOrDomain \<Rightarrow> 'a \<Rightarrow> (int \<rightharpoonup> 'a) \<Rightarrow> error + (int \<rightharpoonup> 'a)" where
  "setMap this nameOrDomain v m =
     (case resolveDomain this nameOrDomain of
        Inl e \<Rightarrow> Inl e
      | Inr d \<Rightarrow> Inr (m(d \<mapsto> v)))"

definition getFromMap ::
  "MultiProvider \<Rightarrow> NameOrDomain \<Rightarrow> (int \<rightharpoonup> 'a) \<Rightarrow> error + 'a option" where
  "getFromMap this nameOrDomain m =
     (case resolveDomain this nameOrDomain of
        Inl e \<Rightarrow> Inl e
      | Inr d \<Rightarrow> Inr (m d))"

text \<open>
  \<open>mustGetFromMap\<close> is called on the maps of domains, providers and signers only, whose
  values are objects, so \<open>!item\<close> is the test for an absent key.
\<close>

definition mustGetFromMap ::
  "MultiProvider \<Rightarrow> NameOrDomain \<Rightarrow> (int \<rightharpoonup> 'a) \<Rightarrow> string \<Rightarrow> error + 'a" where
  "mustGetFromMap this nameOrDomain m tname =
     (case getFromMap this nameOrDomain m of
        Inl e \<Rightarrow> Inl e
      | Inr None \<Rightarrow> Inl (NotFound tname)
      | Inr (Some item) \<Rightarrow> Inr item)"

definition getDomain :: "MultiProvider \<Rightarrow> NameOrDomain \<Rightarrow> error + Domain option" where
  "getDomain this nameOrDomain = getFromMap this nameOrDomain (map_of (domains this))"

definition mustGetDomain :: "MultiProvider \<Rightarrow> NameOrDomain \<Rightarrow> error + Domain" where
  "mustGetDomain this nameOrDomain =
     mustGetFromMap this nameOrDomain (map_of (domains this)) ''Domain''"

definition resolveDomainName :: "MultiProvider \<Rightarrow> NameOrDomain \<Rightarrow> error + string option" where
  "resolveDomainName this nameOrDomain =
     (case getDomain this nameOrDomain of
        Inl e \<Rightarrow> Inl e
      | Inr None \<Rightarrow> Inr None
      | Inr (Some domain) \<Rightarrow> Inr (Some (name domain)))"

definition mustResolveDomainName :: "MultiProvider \<Rightarrow> NameOrDomain \<Rightarrow> error + string" where
  "mustResolveDomainName this nameOrDomain =
     (case mustGetDomain this nameOrDomain of
        Inl e \<Rightarrow> Inl e
      | Inr domain \<Rightarrow> Inr (name domain))"

subsection \<open>Connection registry\<close>

definition getProvider :: "MultiProvider \<Rightarrow> NameOrDomain \<Rightarrow> error + provider option" where
  "getProvider this nameOrDomain = getFromMap this nameOrDomain (providers this)"

definition mustGetProvider :: "MultiProvider \<Rightarrow> NameOrDomain \<Rightarrow> error + provider" where
  "mustGetProvider this nameOrDomain =
     mustGetFromMap this nameOrDomain (providers this) ''Provider''"

definition getSigner :: "MultiProvider \<Rightarrow> NameOrDomain \<Rightarrow> error + signer option" where
  "getSigner this nameOrDomain = getFromMap this nameOrDomain (signers this)"

definition mustGetSigner :: "MultiProvider \<Rightarrow> NameOrDomain \<Rightarrow> error + signer" where
  "mustGetSigner this nameOrDomain =
     mustGetFromMap this nameOrDomain (signers this) ''Signer''"

text \<open>
  \<open>unregisterSigner\<close>: the early return when the key is absent, the throw when the
  stored signer has no provider, then \<open>delete\<close>, then the promotion of the signer's
  provider when \<open>getProvider(nameOrDomain)\<close> (which resolves its argument again) finds
  none.
\<close>

definition unregisterSigner ::
  "MultiProvider \<Rightarrow> NameOrDomain \<Rightarrow> completion \<times> MultiProvider" where
  "unregisterSigner this nameOrDomain =
     (case resolveDomain this nameOrDomain of
        Inl e \<Rightarrow> (Threw e, this)
      | Inr domain \<Rightarrow>
          if \<not> has (signers this) domain then (Returned, this)
          else
            (case signers this domain of
               None \<Rightarrow> (Threw InvariantViolation, this)
             | Some signer \<Rightarrow>
                 (case provider signer of
                    None \<Rightarrow> (Threw InvariantViolation, this)
                  | Some p \<Rightarrow>
                      (let this1 = this\<lparr>signers := (signers this)(domain := None)\<rparr>
                       in case getProvider this1 nameOrDomain of
                            Inl e \<Rightarrow> (Threw e, this1)
                          | Inr (Some q) \<Rightarrow> (Returned, this1)
                          | Inr None \<Rightarrow>
                              (Returned,
                               this1\<lparr>providers := (providers this1)(domain \<mapsto> p)\<rparr>)))))"

text \<open>
  \<open>registerProvider\<close>: the domain must be registered (\<open>mustGetDomain\<close>), also when it is
  given by number. Inside \<open>try\<close> only \<open>signer.connect\<close> can throw; the \<open>catch\<close> calls
  \<open>unregisterSigner(domain)\<close>, whose own throw leaves the method. The provider is stored
  last.
\<close>

definition registerProvider ::
  "MultiProvider \<Rightarrow> NameOrDomain \<Rightarrow> provider \<Rightarrow> completion \<times> MultiProvider" where
  "registerProvider this nameOrDomain p =
     (case mustGetDomain this nameOrDomain of
        Inl e \<Rightarrow> (Threw e, this)
      | Inr d \<Rightarrow>
          (let domain = id' d;
               tried =
                 (case signers this domain of
                    None \<Rightarrow> (Returned, this)
                  | Some signer \<Rightarrow>
                      (case connect signer p of
                         Some bound \<Rightarrow>
                           (Returned, this\<lparr>signers := (signers this)(domain \<mapsto> bound)\<rparr>)
                       | None \<Rightarrow> unregisterSigner this (Num domain)))
           in case tried of
                (Threw e, this1) \<Rightarrow> (Threw e, this1)
              | (Returned, this1) \<Rightarrow>
                  (Returned, this1\<lparr>providers := (providers this1)(domain \<mapsto> p)\<rparr>)))"

text \<open>
  \<open>registerRpcProvider\<close>: the raw argument is compared with \<open>===\<close> to the two Celo
  names, so only these exact strings select the Celo provider class.
\<close>

definition celoNames :: "string list" where
  "celoNames = [''alfajores'', ''celo'']"

definition registerRpcProvider ::
  "MultiProvider \<Rightarrow> NameOrDomain \<Rightarrow> string \<Rightarrow> completion \<times> MultiProvider" where
  "registerRpcProvider this nameOrDomain rpc =
     (case resolveDomain this nameOrDomain of
        Inl e \<Rightarrow> (Threw e, this)
      | Inr domain \<Rightarrow>
          if list_ex (\<lambda>n. nameOrDomain = Name n) celoNames
          then registerProvider this (Num domain) (StaticCeloJsonRpcProvider rpc)
          else registerProvider this (Num domain) (StaticJsonRpcProvider rpc))"

text \<open>
  The \<open>try\<close> block of \<open>registerSigner\<close>, entered when a provider is registered:
  \<open>signer = signer.connect(provider); this.signers.set(domain, signer.connect(provider));
  return\<close>. \<open>Inr\<close> is the registry after the \<open>return\<close>; \<open>Inl\<close> is the exception caught
  by the empty \<open>catch\<close>, with the value the local variable \<open>signer\<close> has at that moment
  (the first \<open>connect\<close> has already been assigned when the second one throws).
\<close>

definition registerSigner_try ::
  "MultiProvider \<Rightarrow> int \<Rightarrow> signer \<Rightarrow> provider \<Rightarrow> signer + MultiProvider" where
  "registerSigner_try this domain signer p =
     (case connect signer p of
        None \<Rightarrow> Inl signer
      | Some signer1 \<Rightarrow>
          (case connect signer1 p of
             None \<Rightarrow> Inl signer1
           | Some signer2 \<Rightarrow> Inr (this\<lparr>signers := (signers this)(domain \<mapsto> signer2)\<rparr>)))"

text \<open>
  The statements after the \<open>try\<close> block ("else and fallback"): the throw when the signer
  has no provider, \<open>registerProvider(domain, signer.provider)\<close>, then the signer is
  stored as it is.
\<close>

definition registerSigner_fallback ::
  "MultiProvider \<Rightarrow> int \<Rightarrow> signer \<Rightarrow> completion \<times> MultiProvider" where
  "registerSigner_fallback this domain signer =
     (case provider signer of
        None \<Rightarrow> (Threw SignerHasNoProvider, this)
      | Some sp \<Rightarrow>
          (case registerProvider this (Num domain) sp of
             (Threw e, this1) \<Rightarrow> (Threw e, this1)
           | (Returned, this1) \<Rightarrow>
               (Returned, this1\<lparr>signers := (signers this1)(domain \<mapsto> signer)\<rparr>)))"

definition registerSigner ::
  "MultiProvider \<Rightarrow> NameOrDomain \<Rightarrow> signer \<Rightarrow> completion \<times> MultiProvider" where
  "registerSigner this nameOrDomain signer =
     (case resolveDomain this nameOrDomain of
        Inl e \<Rightarrow> (Threw e, this)
      | Inr domain \<Rightarrow>
          (case providers this domain of
             None \<Rightarrow>
               if provider signer = None then (Threw MissingProvider, this)
               else registerSigner_fallback this domain signer
           | Some p \<Rightarrow>
               (case registerSigner_try this domain signer p of
                  Inr this1 \<Rightarrow> (Returned, this1)
                | Inl signer1 \<Rightarrow> registerSigner_fallback this domain signer1)))"

text \<open>
  \<open>clearSigners\<close>: \<open>forEach\<close> over the array of domain numbers taken before the loop; an
  exception of one call ends the loop.
\<close>

fun forEach_unregisterSigner ::
  "MultiProvider \<Rightarrow> int list \<Rightarrow> completion \<times> MultiProvider" where
  "forEach_unregisterSigner this [] = (Returned, this)"
| "forEach_unregisterSigner this (domain # rest) =
     (case unregisterSigner this (Num domain) of
        (Threw e, this1) \<Rightarrow> (Threw e, this1)
      | (Returned, this1) \<Rightarrow> forEach_unregisterSigner this1 rest)"

definition clearSigners :: "MultiProvider \<Rightarrow> completion \<times> MultiProvider" where
  "clearSigners this = forEach_unregisterSigner this (domainNumbers this)"

text \<open>
  \<open>registerWalletSigner\<close>. The checks the \<open>ethers.Wallet\<close> constructor makes on the key
  are the library's; it throws before the registry is touched.
\<close>

definition registerWalletSigner ::
  "MultiProvider \<Rightarrow> NameOrDomain \<Rightarrow> string \<Rightarrow> completion \<times> MultiProvider" where
  "registerWalletSigner this nameOrDomain privkey =
     (case resolveDomain this nameOrDomain of
        Inl e \<Rightarrow> (Threw e, this)
      | Inr domain \<Rightarrow> registerSigner this (Num domain) (Wallet privkey))"

text \<open>
  \<open>getConnection\<close> is \<open>getSigner(x) ?? getProvider(x)\<close>. The asynchronous \<open>getAddress\<close>
  only forwards to the signer's own address derivation and has no counterpart here.
\<close>

datatype connection = SignerConnection signer | ProviderConnection provider

definition getConnection ::
  "MultiProvider \<Rightarrow> NameOrDomain \<Rightarrow> error + connection option" where
  "getConnection this nameOrDomain =
     (case getSigner this nameOrDomain of
        Inl e \<Rightarrow> Inl e
      | Inr (Some s) \<Rightarrow> Inr (Some (SignerConnection s))
      | Inr None \<Rightarrow>
          (case getProvider this nameOrDomain of
             Inl e \<Rightarrow> Inl e
           | Inr None \<Rightarrow> Inr None
           | Inr (Some p) \<Rightarrow> Inr (Some (ProviderConnection p))))"

definition mustGetConnection ::
  "MultiProvider \<Rightarrow> NameOrDomain \<Rightarrow> error + connection" where
  "mustGetConnection this nameOrDomain =
     (case getConnection this nameOrDomain of
        Inl e \<Rightarrow> Inl e
      | Inr None \<Rightarrow> Inl ConnectionNotFound
      | Inr (Some c) \<Rightarrow> Inr c)"

subsection \<open>Policy store\<close>

definition registerOverrides ::
  "MultiProvider \<Rightarrow> NameOrDomain \<Rightarrow> Overrides \<Rightarrow> completion \<times> MultiProvider" where
  "registerOverrides this nameOrDomain ov =
     (case setMap this nameOrDomain ov (overrides this) of
        Inl e \<Rightarrow> (Threw e, this)
      | Inr m \<Rightarrow> (Returned, this\<lparr>overrides := m\<rparr>))"

text \<open>\<open>x || {}\<close>: a stored bag is an object, so only the absent key gives \<open>{}\<close>.\<close>

definition getOverrides :: "MultiProvider \<Rightarrow> NameOrDomain \<Rightarrow> error + Overrides" where
  "getOverrides this nameOrDomain =
     (case getFromMap this nameOrDomain (overrides this) of
        Inl e \<Rightarrow> Inl e
      | Inr None \<Rightarrow> Inr []
      | Inr (Some ov) \<Rightarrow> Inr ov)"

definition registerConfirmations ::
  "MultiProvider \<Rightarrow> NameOrDomain \<Rightarrow> int \<Rightarrow> completion \<times> MultiProvider" where
  "registerConfirmations this nameOrDomain n =
     (case setMap this nameOrDomain n (confirmations this) of
        Inl e \<Rightarrow> (Threw e, this)
      | Inr m \<Rightarrow> (Returned, this\<lparr>confirmations := m\<rparr>))"

text \<open>\<open>x || 0\<close>: the absent key and the falsy stored number \<open>0\<close> both give \<open>0\<close>.\<close>

definition getConfirmations :: "MultiProvider \<Rightarrow> NameOrDomain \<Rightarrow> error + int" where
  "getConfirmations this nameOrDomain =
     (case getFromMap this nameOrDomain (confirmations this) of
        Inl e \<Rightarrow> Inl e
      | Inr None \<Rightarrow> Inr 0
      | Inr (Some n) \<Rightarrow> Inr (if n = 0 then 0 else n))"

subsection \<open>Sequences of calls\<close>

text \<open>
  The public methods that change the registry, as a datatype of calls. \<open>run\<close> makes the
  calls of a list one after the other; a caller that catches an exception goes on with
  the registry as the throwing method left it.
\<close>

datatype call =
    RegisterDomain Domain
  | RegisterProvider NameOrDomain provider
  | RegisterRpcProvider NameOrDomain string
  | RegisterSigner NameOrDomain signer
  | RegisterWalletSigner NameOrDomain string
  | UnregisterSigner NameOrDomain
  | ClearSigners
  | RegisterOverrides NameOrDomain Overrides
  | RegisterConfirmations NameOrDomain int

fun exec :: "MultiProvider \<Rightarrow> call \<Rightarrow> completion \<times> MultiProvider" where
  "exec this (RegisterDomain d) = (Returned, registerDomain this d)"
| "exec this (RegisterProvider nd p) = registerProvider this nd p"
| "exec this (RegisterRpcProvider nd rpc) = registerRpcProvider this nd rpc"
| "exec this (RegisterSigner nd s) = registerSigner this nd s"
| "exec this (RegisterWalletSigner nd k) = registerWalletSigner this nd k"
| "exec this (UnregisterSigner nd) = unregisterSigner this nd"
| "exec this ClearSigners = clearSigners this"
| "exec this (RegisterOverrides nd ov) = registerOverrides this nd ov"
| "exec this (RegisterConfirmations nd n) = registerConfirmations this nd n"

fun run :: "MultiProvider \<Rightarrow> call list \<Rightarrow> MultiProvider" where
  "run this [] = this"
| "run this (c # cs) = run (snd (exec this c)) cs"

subsection \<open>Consistency of the registry\<close>

text \<open>
  What the public methods keep true of the registry: a stored domain sits under its own
  id, a domain that has a signer has a provider, a domain that has a provider is
  registered, and a stored signer carries a provider.
\<close>

definition consistent :: "MultiProvider \<Rightarrow> bool" where
  "consistent this \<longleftrightarrow>
     (\<forall>k d. map_of (domains this) k = Some d \<longrightarrow> id' d = k) \<and>
     dom (signers this) \<subseteq> dom (providers this) \<and>
     dom (providers this) \<subseteq> dom (map_of (domains this)) \<and>
     (\<forall>k s. signers this k = Some s \<longrightarrow> provider s \<noteq> None)"

section \<open>Properties\<close>

subsection \<open>The methods, unfolded\<close>

lemma resolveDomain_Num [simp]: "resolveDomain this (Num n) = Inr n"
  by (simp add: resolveDomain_def)

lemma resolveDomain_signers_update [simp]:
  "resolveDomain (this\<lparr>signers := x\<rparr>) nd = resolveDomain this nd"
  by (cases nd) (simp_all add: resolveDomain_def)

lemma resolveDomain_providers_update [simp]:
  "resolveDomain (this\<lparr>providers := x\<rparr>) nd = resolveDomain this nd"
  by (cases nd) (simp_all add: resolveDomain_def)

lemma unregisterSigner_Num:
  "unregisterSigner this (Num d) =
     (case signers this d of
        None \<Rightarrow> (Returned, this)
      | Some s \<Rightarrow>
          (case provider s of
             None \<Rightarrow> (Threw InvariantViolation, this)
           | Some p \<Rightarrow>
               (Returned,
                this\<lparr>signers := (signers this)(d := None),
                     providers := (case providers this d of
                                     None \<Rightarrow> (providers this)(d \<mapsto> p)
                                   | Some q \<Rightarrow> providers this)\<rparr>)))"
  by (simp add: unregisterSigner_def has_def getProvider_def getFromMap_def
           split: option.splits)

lemma unregisterSigner_resolve:
  "unregisterSigner this nd =
     (case resolveDomain this nd of
        Inl e \<Rightarrow> (Threw e, this)
      | Inr d \<Rightarrow> unregisterSigner this (Num d))"
  by (simp add: unregisterSigner_def has_def getProvider_def getFromMap_def
           split: option.splits sum.splits)

lemma registerProvider_unfold:
  "registerProvider this nd p =
     (case mustGetDomain this nd of
        Inl e \<Rightarrow> (Threw e, this)
      | Inr d \<Rightarrow>
          (case signers this (id' d) of
             None \<Rightarrow> (Returned, this\<lparr>providers := (providers this)(id' d \<mapsto> p)\<rparr>)
           | Some s \<Rightarrow>
               if rebindable s
               then (Returned,
                     this\<lparr>signers := (signers this)(id' d \<mapsto> s\<lparr>provider := Some p\<rparr>),
                          providers := (providers this)(id' d \<mapsto> p)\<rparr>)
               else (case provider s of
                       None \<Rightarrow> (Threw InvariantViolation, this)
                     | Some q \<Rightarrow>
                         (Returned,
                          this\<lparr>signers := (signers this)(id' d := None),
                               providers := (providers this)(id' d \<mapsto> p)\<rparr>))))"
  by (simp add: registerProvider_def unregisterSigner_Num connect_def Let_def
           split: option.splits sum.splits)

lemma consistent_new: "consistent newMultiProvider"
  by (simp add: consistent_def newMultiProvider_def)

lemma consistent_registerDomain: "consistent this \<Longrightarrow> consistent (registerDomain this d)"
  by (auto simp: consistent_def registerDomain_def update_conv' split: if_splits)

lemma consistent_unregisterSigner_Num:
  "consistent this \<Longrightarrow> consistent (snd (unregisterSigner this (Num d)))"
  by (auto simp: consistent_def unregisterSigner_Num split: option.splits if_splits)

lemma consistent_unregisterSigner:
  "consistent this \<Longrightarrow> consistent (snd (unregisterSigner this nd))"
  by (subst unregisterSigner_resolve) (auto simp: consistent_unregisterSigner_Num split: sum.splits)

lemma mustGetDomain_Inr:
  "mustGetDomain this nd = Inr d \<longleftrightarrow>
     (\<exists>k. resolveDomain this nd = Inr k \<and> map_of (domains this) k = Some d)"
  by (auto simp: mustGetDomain_def mustGetFromMap_def getFromMap_def split: sum.splits option.splits)

lemma consistent_registerProvider:
  "consistent this \<Longrightarrow> consistent (snd (registerProvider this nd p))"
  unfolding registerProvider_unfold
  by (auto simp: consistent_def mustGetDomain_Inr split: sum.splits option.splits if_splits)

lemma consistent_registerRpcProvider:
  "consistent this \<Longrightarrow> consistent (snd (registerRpcProvider this nd rpc))"
  by (auto simp: registerRpcProvider_def consistent_registerProvider split: sum.splits)

lemma registerSigner_try_unfold:
  "registerSigner_try this d s p =
     (if rebindable s
      then Inr (this\<lparr>signers := (signers this)(d \<mapsto> s\<lparr>provider := Some p\<rparr>)\<rparr>)
      else Inl s)"
  by (simp add: registerSigner_try_def connect_def)

lemma registerProvider_Num_Returned:
  assumes "consistent this" and "registerProvider this (Num d) p = (Returned, this1)"
  shows "providers this1 d = Some p"
  using assms unfolding registerProvider_unfold
  by (auto simp: consistent_def mustGetDomain_Inr split: sum.splits option.splits if_splits)

lemma consistent_store_signer:
  assumes "consistent this" and "providers this d \<noteq> None" and "provider s \<noteq> None"
  shows "consistent (this\<lparr>signers := (signers this)(d \<mapsto> s)\<rparr>)"
  using assms by (auto simp: consistent_def)

lemma consistent_registerSigner_fallback:
  assumes "consistent this"
  shows "consistent (snd (registerSigner_fallback this d s))"
proof (cases "provider s")
  case None
  then show ?thesis using assms by (simp add: registerSigner_fallback_def)
next
  case (Some sp)
  obtain c this1 where r: "registerProvider this (Num d) sp = (c, this1)"
    by (cases "registerProvider this (Num d) sp")
  have c1: "consistent this1"
    using consistent_registerProvider [OF assms, of "Num d" sp] r by simp
  show ?thesis
  proof (cases c)
    case Returned
    then have "providers this1 d = Some sp"
      using registerProvider_Num_Returned [OF assms] r by simp
    then have "consistent (this1\<lparr>signers := (signers this1)(d \<mapsto> s)\<rparr>)"
      using c1 Some by (intro consistent_store_signer) simp_all
    then show ?thesis using Some r Returned by (simp add: registerSigner_fallback_def)
  next
    case (Threw e)
    then show ?thesis using Some r c1 by (simp add: registerSigner_fallback_def)
  qed
qed

lemma consistent_registerSigner:
  assumes "consistent this"
  shows "consistent (snd (registerSigner this nd s))"
proof (cases "resolveDomain this nd")
  case (Inl e)
  then show ?thesis using assms by (simp add: registerSigner_def)
next
  case (Inr d)
  show ?thesis
  proof (cases "providers this d")
    case None
    then show ?thesis
      using Inr assms consistent_registerSigner_fallback [OF assms, of d s]
      by (simp add: registerSigner_def)
  next
    case (Some p)
    show ?thesis
    proof (cases "rebindable s")
      case True
      have "consistent (this\<lparr>signers := (signers this)(d \<mapsto> s\<lparr>provider := Some p\<rparr>)\<rparr>)"
        using assms Some by (intro consistent_store_signer) simp_all
      then show ?thesis
        using Inr Some True by (simp add: registerSigner_def registerSigner_try_unfold)
    next
      case False
      then show ?thesis
        using Inr Some consistent_registerSigner_fallback [OF assms, of d s]
        by (simp add: registerSigner_def registerSigner_try_unfold)
    qed
  qed
qed

lemma consistent_registerWalletSigner:
  "consistent this \<Longrightarrow> consistent (snd (registerWalletSigner this nd k))"
  by (auto simp: registerWalletSigner_def consistent_registerSigner split: sum.splits)

lemma consistent_forEach_unregisterSigner:
  "consistent this \<Longrightarrow> consistent (snd (forEach_unregisterSigner this ds))"
proof (induction ds arbitrary: this)
  case Nil
  then show ?case by simp
next
  case (Cons d ds)
  obtain c this1 where r: "unregisterSigner this (Num d) = (c, this1)"
    by (cases "unregisterSigner this (Num d)")
  have c1: "consistent this1"
    using consistent_unregisterSigner_Num [OF Cons.prems, of d] r by simp
  show ?case
    using r c1 Cons.IH [OF c1] by (cases c) simp_all
qed

lemma consistent_clearSigners: "consistent this \<Longrightarrow> consistent (snd (clearSigners this))"
  by (simp add: clearSigners_def consistent_forEach_unregisterSigner)

lemma consistent_registerOverrides:
  "consistent this \<Longrightarrow> consistent (snd (registerOverrides this nd ov))"
  by (auto simp: registerOverrides_def setMap_def consistent_def split: sum.splits)

lemma consistent_registerConfirmations:
  "consistent this \<Longrightarrow> consistent (snd (registerConfirmations this nd n))"
  by (auto simp: registerConfirmations_def setMap_def consistent_def split: sum.splits)

lemma consistent_exec: "consistent this \<Longrightarrow> consistent (snd (exec this c))"
  by (cases c)
     (simp_all add: consistent_registerDomain consistent_registerProvider
        consistent_registerRpcProvider consistent_registerSigner
        consistent_registerWalletSigner consistent_unregisterSigner consistent_clearSigners
        consistent_registerOverrides consistent_registerConfirmations)

lemma consistent_run: "consistent this \<Longrightarrow> consistent (run this cs)"
  by (induction cs arbitrary: this) (simp_all add: consistent_exec)

lemma consistent_reachable: "consistent (run newMultiProvider cs)"
  by (simp add: consistent_run consistent_new)

subsection \<open>What \<open>registerProvider\<close> does in a consistent registry\<close>

lemma resolveDomain_cong_domains:
  "domains a = domains b \<Longrightarrow> resolveDomain a nd = resolveDomain b nd"
  by (cases nd) (simp_all add: resolveDomain_def)

lemma registerProvider_consistent:
  assumes "consistent this" and "resolveDomain this nd = Inr d"
    and "map_of (domains this) d = Some D"
  shows "registerProvider this nd p =
           (Returned,
            this\<lparr>signers := (case signers this d of
                               None \<Rightarrow> signers this
                             | Some s \<Rightarrow> (signers this)(d := connect s p)),
                 providers := (providers this)(d \<mapsto> p)\<rparr>)"
proof -
  have m: "mustGetDomain this nd = Inr D"
    using assms by (simp add: mustGetDomain_Inr)
  have i: "id' D = d"
    using assms by (simp add: consistent_def)
  have s: "signers this d = Some s \<Longrightarrow> provider s \<noteq> None" for s
    using assms(1) by (simp add: consistent_def)
  show ?thesis
    unfolding registerProvider_unfold
    using m i s by (auto simp: connect_def split: option.splits)
qed

lemma registerProvider_Returned_known:
  "fst (registerProvider this nd p) = Returned \<Longrightarrow>
     \<exists>d D. resolveDomain this nd = Inr d \<and> map_of (domains this) d = Some D"
  unfolding registerProvider_unfold
  by (cases "mustGetDomain this nd") (auto simp: mustGetDomain_Inr)

lemma domains_unregisterSigner [simp]:
  "domains (snd (unregisterSigner this nd)) = domains this"
  by (subst unregisterSigner_resolve)
     (simp add: unregisterSigner_Num split: sum.splits option.splits)

lemma domains_registerProvider [simp]:
  "domains (snd (registerProvider this nd p)) = domains this"
  unfolding registerProvider_unfold
  by (simp split: sum.splits option.splits)

lemma mustGetDomain_Num_unregistered:
  "map_of (domains this) n = None \<Longrightarrow> mustGetDomain this (Num n) = Inl (NotFound ''Domain'')"
  by (simp add: mustGetDomain_def mustGetFromMap_def getFromMap_def)

lemma registerProvider_Num_unregistered:
  "map_of (domains this) n = None \<Longrightarrow>
     registerProvider this (Num n) p = (Threw (NotFound ''Domain''), this)"
  by (simp add: registerProvider_def mustGetDomain_Num_unregistered)

lemma consistent_unregistered_no_provider:
  assumes "consistent this" and "map_of (domains this) n = None"
  shows "providers this n = None"
proof -
  have "n \<notin> dom (map_of (domains this))"
    using assms(2) by blast
  moreover have "dom (providers this) \<subseteq> dom (map_of (domains this))"
    using assms(1) unfolding consistent_def by blast
  ultimately show ?thesis
    by blast
qed

subsection \<open>The signer's \<open>connect\<close>\<close>

lemma connect_twice: "connect S P = Some S' \<Longrightarrow> connect S' P = Some S'"
  by (auto simp: connect_def split: if_splits)

lemma connect_provider: "connect S P = Some S' \<Longrightarrow> provider S' = Some P"
  by (auto simp: connect_def split: if_splits)

subsection \<open>The loop of \<open>clearSigners\<close>\<close>

lemma forEach_unregisterSigner_result:
  assumes "\<forall>k s. signers this k = Some s \<longrightarrow> provider s \<noteq> None"
  shows "forEach_unregisterSigner this ds =
           (Returned,
            this\<lparr>signers := (\<lambda>k. if k \<in> set ds then None else signers this k),
                 providers :=
                   (\<lambda>k. if k \<in> set ds
                        then (case providers this k of
                                Some q \<Rightarrow> Some q
                              | None \<Rightarrow> (case signers this k of
                                           None \<Rightarrow> None
                                         | Some s \<Rightarrow> provider s))
                        else providers this k)\<rparr>)"
  using assms
proof (induction ds arbitrary: this)
  case Nil
  then show ?case by simp
next
  case (Cons d ds)
  show ?case
  proof (cases "signers this d")
    case None
    have "forEach_unregisterSigner this (d # ds) = forEach_unregisterSigner this ds"
      using None by (simp add: unregisterSigner_Num)
    also note Cons.IH [OF Cons.prems]
    finally show ?thesis
      using None by (auto simp: fun_eq_iff split: option.splits intro!: MultiProvider.equality)
  next
    case (Some s)
    then obtain p where p: "provider s = Some p"
      using Cons.prems by blast
    let ?this1 = "this\<lparr>signers := (signers this)(d := None),
                       providers := (case providers this d of
                                       None \<Rightarrow> (providers this)(d \<mapsto> p)
                                     | Some q \<Rightarrow> providers this)\<rparr>"
    have pre: "\<forall>k s. signers ?this1 k = Some s \<longrightarrow> provider s \<noteq> None"
      using Cons.prems by simp
    have "forEach_unregisterSigner this (d # ds) = forEach_unregisterSigner ?this1 ds"
      using Some p by (simp add: unregisterSigner_Num)
    also note Cons.IH [OF pre]
    finally show ?thesis
      using Some p by (auto simp: fun_eq_iff split: option.splits intro!: MultiProvider.equality)
  qed
qed

subsection \<open>Evaluation on concrete registries\<close>

text \<open>The equations that evaluate the methods on a concrete registry.\<close>

lemmas eval_defs = newMultiProvider_def registerDomain_def registerSigner_def
          registerSigner_fallback_def registerSigner_try_unfold registerProvider_unfold
          mustGetDomain_def mustGetFromMap_def getFromMap_def unregisterSigner_Num
          registerWalletSigner_def Wallet_def getProvider_def getSigner_def connect_def

text \<open>Lower-casing of the names used in the examples.\<close>

lemma toLowerCase_examples:
  "toLowerCase ''alpha'' = ''alpha''" "toLowerCase ''Alpha'' = ''alpha''"
  "toLowerCase ''Beta'' = ''beta''" "toLowerCase ''bETA'' = ''beta''"
  "toLowerCase ''gamma'' = ''gamma''"
  by code_simp+

subsection \<open>Which methods write the policy maps\<close>

lemma policy_unregisterSigner:
  "overrides (snd (unregisterSigner this nd)) = overrides this \<and>
   confirmations (snd (unregisterSigner this nd)) = confirmations this"
  by (subst (1 2) unregisterSigner_resolve)
     (simp add: unregisterSigner_Num split: sum.splits option.splits)

lemma policy_registerProvider:
  "overrides (snd (registerProvider this nd p)) = overrides this \<and>
   confirmations (snd (registerProvider this nd p)) = confirmations this"
  unfolding registerProvider_unfold
  by (simp split: sum.splits option.splits)

lemma policy_registerSigner_fallback:
  "overrides (snd (registerSigner_fallback this d s)) = overrides this \<and>
   confirmations (snd (registerSigner_fallback this d s)) = confirmations this"
proof (cases "provider s")
  case None
  then show ?thesis by (simp add: registerSigner_fallback_def)
next
  case (Some q)
  obtain c this1 where r: "registerProvider this (Num d) q = (c, this1)"
    by (cases "registerProvider this (Num d) q")
  have "overrides this1 = overrides this \<and> confirmations this1 = confirmations this"
    using policy_registerProvider [of this "Num d" q] r by simp
  then show ?thesis
    using Some r by (cases c) (simp_all add: registerSigner_fallback_def)
qed

lemma policy_registerSigner:
  "overrides (snd (registerSigner this nd s)) = overrides this \<and>
   confirmations (snd (registerSigner this nd s)) = confirmations this"
  by (simp add: registerSigner_def registerSigner_try_unfold policy_registerSigner_fallback
           split: sum.splits option.splits)

lemma policy_forEach_unregisterSigner:
  "overrides (snd (forEach_unregisterSigner this ds)) = overrides this \<and>
   confirmations (snd (forEach_unregisterSigner this ds)) = confirmations this"
proof (induction ds arbitrary: this)
  case Nil
  then show ?case by simp
next
  case (Cons d ds)
  obtain c this1 where r: "unregisterSigner this (Num d) = (c, this1)"
    by (cases "unregisterSigner this (Num d)")
  have "overrides this1 = overrides this \<and> confirmations this1 = confirmations this"
    using policy_unregisterSigner [of this "Num d"] r by simp
  then show ?case
    using r Cons.IH [of this1] by (cases c) simp_all
qed

lemma policy_exec:
  assumes "\<forall>nd ov. c \<noteq> RegisterOverrides nd ov" and "\<forall>nd n. c \<noteq> RegisterConfirmations nd n"
  shows "overrides (snd (exec this c)) = overrides this \<and>
         confirmations (snd (exec this c)) = confirmations this"
  using assms
  by (cases c)
     (simp_all add: registerDomain_def policy_registerProvider policy_registerSigner
        policy_unregisterSigner policy_forEach_unregisterSigner clearSigners_def
        registerRpcProvider_def registerWalletSigner_def split: sum.splits)

lemma policy_run:
  assumes "\<forall>c \<in> set cs. (\<forall>nd ov. c \<noteq> RegisterOverrides nd ov) \<and>
                          (\<forall>nd n. c \<noteq> RegisterConfirmations nd n)"
  shows "overrides (run this cs) = overrides this \<and>
         confirmations (run this cs) = confirmations this"
  using assms
proof (induction cs arbitrary: this)
  case Nil
  then show ?case by simp
next
  case (Cons c cs)
  have "overrides (snd (exec this c)) = overrides this \<and>
        confirmations (snd (exec this c)) = confirmations this"
    using Cons.prems by (intro policy_exec) simp_all
  then show ?case
    using Cons.IH [of "snd (exec this c)"] Cons.prems by simp
qed

section \<open>The claims\<close>

subsection \<open>C1: a registered signer always has a discoverable provider\<close>

text \<open>
  Claim C1. In every registry reached from a new \<open>MultiProvider\<close> by any sequence of
  calls of the public methods (whether a call returns or throws), for every domain id
  \<open>d\<close>: if the map of signers has an entry for \<open>d\<close>, then the map of providers has an
  entry for \<open>d\<close> or the stored signer carries a provider.
\<close>

theorem reachable_signer_has_provider:
  "signers (run newMultiProvider cs) d = Some s \<Longrightarrow>
     providers (run newMultiProvider cs) d \<noteq> None \<or> provider s \<noteq> None"
  using consistent_reachable [of cs] by (auto simp: consistent_def)

theorem reachable_signer_has_provider_witness:
  "signers (run newMultiProvider
      [RegisterDomain \<lparr>id' = 1, name = ''alpha''\<rparr>,
       RegisterSigner (Num 1) \<lparr>ident = ''s'', provider = Some (Handle 0), rebindable = False\<rparr>,
       UnregisterSigner (Num 1),
       RegisterWalletSigner (Num 1) ''k'']) 1
     = Some \<lparr>ident = ''k'', provider = Some (Handle 0), rebindable = True\<rparr> \<and>
   \<not> (providers (run newMultiProvider
      [RegisterDomain \<lparr>id' = 1, name = ''alpha''\<rparr>,
       RegisterSigner (Num 1) \<lparr>ident = ''s'', provider = Some (Handle 0), rebindable = False\<rparr>,
       UnregisterSigner (Num 1),
       RegisterWalletSigner (Num 1) ''k'']) 1 = None \<and>
    provider \<lparr>ident = ''k'', provider = Some (Handle 0), rebindable = True\<rparr> = None)"
proof -
  have h: "signers (run newMultiProvider
      [RegisterDomain \<lparr>id' = 1, name = ''alpha''\<rparr>,
       RegisterSigner (Num 1) \<lparr>ident = ''s'', provider = Some (Handle 0), rebindable = False\<rparr>,
       UnregisterSigner (Num 1),
       RegisterWalletSigner (Num 1) ''k'']) 1
     = Some \<lparr>ident = ''k'', provider = Some (Handle 0), rebindable = True\<rparr>"
    by (simp add: newMultiProvider_def registerDomain_def registerSigner_def
          registerSigner_fallback_def registerSigner_try_unfold registerProvider_unfold
          mustGetDomain_def mustGetFromMap_def getFromMap_def unregisterSigner_Num
          registerWalletSigner_def Wallet_def)
  show ?thesis
    using h reachable_signer_has_provider [OF h] by simp
qed

subsection \<open>C2: the algorithm of \<open>registerSigner\<close>\<close>

text \<open>
  Claim C2, as the code has it. Where \<open>nameOrDomain\<close> resolves to \<open>d\<close>,
  \<open>registerSigner(d, S)\<close> throws \<open>MissingProvider\<close> when no provider is registered for
  \<open>d\<close> and \<open>S\<close> carries none. When a provider \<open>P\<close> is registered and \<open>S.connect(P)\<close>
  succeeds (the code calls it once more on the bound copy, which gives that copy again),
  the bound signer is stored and the method returns; the provider of \<open>d\<close> stays \<open>P\<close>. When \<open>S.connect(P)\<close> throws and \<open>S\<close> carries no provider the method throws
  \<open>SignerHasNoProvider\<close>. When no provider is registered, or \<open>S.connect(P)\<close> throws, and
  \<open>S\<close> carries a provider \<open>Q\<close>, the method calls \<open>registerProvider(d, Q)\<close>, whose throw
  it passes on, and then stores \<open>S\<close> as it is: in a registry reached by public calls
  where \<open>d\<close> is registered this returns, and the provider of \<open>d\<close> is then \<open>Q\<close>, also when
  another provider was registered before. So the registered provider takes precedence
  when binding succeeds, and the signer's provider replaces it when binding fails.
\<close>

theorem registerSigner_algorithm:
  assumes "resolveDomain this nd = Inr d"
  shows "(providers this d = None \<and> provider S = None \<longrightarrow>
            registerSigner this nd S = (Threw MissingProvider, this)) \<and>
         (providers this d = Some P \<and> connect S P = Some S' \<longrightarrow>
            registerSigner this nd S
              = (Returned, this\<lparr>signers := (signers this)(d \<mapsto> S')\<rparr>) \<and>
            provider S' = Some P \<and>
            getProvider (snd (registerSigner this nd S)) nd = Inr (Some P)) \<and>
         (providers this d = Some P \<and> connect S P = None \<and> provider S = None \<longrightarrow>
            registerSigner this nd S = (Threw SignerHasNoProvider, this)) \<and>
         ((providers this d = None \<or> providers this d = Some P \<and> connect S P = None) \<and>
          provider S = Some Q \<longrightarrow>
            registerSigner this nd S =
              (case registerProvider this (Num d) Q of
                 (Threw e, this1) \<Rightarrow> (Threw e, this1)
               | (Returned, this1) \<Rightarrow>
                   (Returned, this1\<lparr>signers := (signers this1)(d \<mapsto> S)\<rparr>)) \<and>
            (this = run newMultiProvider cs \<and> map_of (domains this) d = Some D \<longrightarrow>
               fst (registerSigner this nd S) = Returned \<and>
               getSigner (snd (registerSigner this nd S)) nd = Inr (Some S) \<and>
               getProvider (snd (registerSigner this nd S)) nd = Inr (Some Q)))"
proof (intro conjI impI)
  assume "providers this d = None \<and> provider S = None"
  then show "registerSigner this nd S = (Threw MissingProvider, this)"
    using assms by (simp add: registerSigner_def)
next
  assume a: "providers this d = Some P \<and> connect S P = Some S'"
  then have "connect S P = Some S'" and "connect S' P = Some S'"
    by (blast intro: connect_twice)+
  then have t: "registerSigner_try this d S P
                  = Inr (this\<lparr>signers := (signers this)(d \<mapsto> S')\<rparr>)"
    by (simp add: registerSigner_try_def)
  show r: "registerSigner this nd S = (Returned, this\<lparr>signers := (signers this)(d \<mapsto> S')\<rparr>)"
    using assms a t by (simp add: registerSigner_def)
  show "provider S' = Some P"
    using a by (blast intro: connect_provider)
  show "getProvider (snd (registerSigner this nd S)) nd = Inr (Some P)"
    using assms a by (simp add: r getProvider_def getFromMap_def)
next
  assume a: "providers this d = Some P \<and> connect S P = None \<and> provider S = None"
  then have "registerSigner_try this d S P = Inl S"
    by (simp add: registerSigner_try_def)
  then show "registerSigner this nd S = (Threw SignerHasNoProvider, this)"
    using assms a by (simp add: registerSigner_def registerSigner_fallback_def)
next
  assume a: "(providers this d = None \<or> providers this d = Some P \<and> connect S P = None) \<and>
          provider S = Some Q"
  have f: "registerSigner this nd S = registerSigner_fallback this d S"
  proof (cases "providers this d")
    case None
    then show ?thesis
      using assms a by (simp add: registerSigner_def)
  next
    case (Some P')
    then have "connect S P' = None"
      using a by auto
    then have "registerSigner_try this d S P' = Inl S"
      by (simp add: registerSigner_try_def)
    then show ?thesis
      using assms Some by (simp add: registerSigner_def)
  qed
  show g: "registerSigner this nd S =
          (case registerProvider this (Num d) Q of
             (Threw e, this1) \<Rightarrow> (Threw e, this1)
           | (Returned, this1) \<Rightarrow>
               (Returned, this1\<lparr>signers := (signers this1)(d \<mapsto> S)\<rparr>))"
    using a by (simp add: f registerSigner_fallback_def)
  {
    assume b: "this = run newMultiProvider cs \<and> map_of (domains this) d = Some D"
    then have c: "consistent this"
      by (simp add: consistent_reachable)
    have D: "map_of (domains this) d = Some D"
      using b by blast
    note e = registerProvider_consistent [OF c resolveDomain_Num D, of Q]
    have r: "resolveDomain (snd (registerSigner this nd S)) nd = Inr d"
      using assms resolveDomain_cong_domains [of "snd (registerSigner this nd S)" this nd]
      by (simp add: g e)
    show "fst (registerSigner this nd S) = Returned"
      by (simp add: g e)
    show "getSigner (snd (registerSigner this nd S)) nd = Inr (Some S)"
      unfolding getSigner_def getFromMap_def r by (simp add: g e)
    show "getProvider (snd (registerSigner this nd S)) nd = Inr (Some Q)"
      unfolding getProvider_def getFromMap_def r by (simp add: g e)
  }
qed

theorem registerSigner_algorithm_witness:
  "registerSigner (run newMultiProvider [RegisterDomain \<lparr>id' = 1, name = ''alpha''\<rparr>]) (Num 1) \<lparr>ident = ''k'', provider = None, rebindable = True\<rparr>
     = (Threw MissingProvider, (run newMultiProvider [RegisterDomain \<lparr>id' = 1, name = ''alpha''\<rparr>])) \<and>
   connect \<lparr>ident = ''k'', provider = None, rebindable = True\<rparr> (Handle 0) = Some \<lparr>ident = ''k'', provider = Some (Handle 0), rebindable = True\<rparr> \<and>
   getSigner (snd (registerSigner (run newMultiProvider [RegisterDomain \<lparr>id' = 1, name = ''alpha''\<rparr>, RegisterProvider (Num 1) (Handle 0)]) (Num 1) \<lparr>ident = ''k'', provider = None, rebindable = True\<rparr>)) (Num 1)
     = Inr (Some \<lparr>ident = ''k'', provider = Some (Handle 0), rebindable = True\<rparr>) \<and>
   getProvider (snd (registerSigner (run newMultiProvider [RegisterDomain \<lparr>id' = 1, name = ''alpha''\<rparr>, RegisterProvider (Num 1) (Handle 0)]) (Num 1) \<lparr>ident = ''k'', provider = None, rebindable = True\<rparr>)) (Num 1)
     = Inr (Some (Handle 0)) \<and>
   registerSigner (run newMultiProvider [RegisterDomain \<lparr>id' = 1, name = ''alpha''\<rparr>, RegisterProvider (Num 1) (Handle 0)]) (Num 1) \<lparr>ident = ''j'', provider = None, rebindable = False\<rparr>
     = (Threw SignerHasNoProvider, (run newMultiProvider [RegisterDomain \<lparr>id' = 1, name = ''alpha''\<rparr>, RegisterProvider (Num 1) (Handle 0)])) \<and>
   fst (registerSigner (run newMultiProvider [RegisterDomain \<lparr>id' = 1, name = ''alpha''\<rparr>, RegisterProvider (Num 1) (Handle 0)]) (Num 1) \<lparr>ident = ''j'', provider = Some (Handle 1), rebindable = False\<rparr>) = Returned \<and>
   getSigner (snd (registerSigner (run newMultiProvider [RegisterDomain \<lparr>id' = 1, name = ''alpha''\<rparr>, RegisterProvider (Num 1) (Handle 0)]) (Num 1) \<lparr>ident = ''j'', provider = Some (Handle 1), rebindable = False\<rparr>)) (Num 1)
     = Inr (Some \<lparr>ident = ''j'', provider = Some (Handle 1), rebindable = False\<rparr>) \<and>
   getProvider (snd (registerSigner (run newMultiProvider [RegisterDomain \<lparr>id' = 1, name = ''alpha''\<rparr>, RegisterProvider (Num 1) (Handle 0)]) (Num 1) \<lparr>ident = ''j'', provider = Some (Handle 1), rebindable = False\<rparr>)) (Num 1)
     = Inr (Some (Handle 1)) \<and>
   fst (registerSigner (run newMultiProvider [RegisterDomain \<lparr>id' = 1, name = ''alpha''\<rparr>]) (Num 1) \<lparr>ident = ''j'', provider = Some (Handle 1), rebindable = False\<rparr>) = Returned \<and>
   getProvider (snd (registerSigner (run newMultiProvider [RegisterDomain \<lparr>id' = 1, name = ''alpha''\<rparr>]) (Num 1) \<lparr>ident = ''j'', provider = Some (Handle 1), rebindable = False\<rparr>)) (Num 1)
     = Inr (Some (Handle 1))"
proof -
  have p0: "providers (run newMultiProvider [RegisterDomain \<lparr>id' = 1, name = ''alpha''\<rparr>]) 1 = None"
    by (simp add: eval_defs)
  have p1: "providers (run newMultiProvider [RegisterDomain \<lparr>id' = 1, name = ''alpha''\<rparr>, RegisterProvider (Num 1) (Handle 0)]) 1 = Some (Handle 0)"
    by (simp add: eval_defs)
  have d0: "map_of (domains (run newMultiProvider [RegisterDomain \<lparr>id' = 1, name = ''alpha''\<rparr>])) 1 = Some \<lparr>id' = 1, name = ''alpha''\<rparr>"
    by (simp add: eval_defs)
  have d1: "map_of (domains (run newMultiProvider [RegisterDomain \<lparr>id' = 1, name = ''alpha''\<rparr>, RegisterProvider (Num 1) (Handle 0)])) 1 = Some \<lparr>id' = 1, name = ''alpha''\<rparr>"
    by (simp add: eval_defs)
  have c1: "connect \<lparr>ident = ''k'', provider = None, rebindable = True\<rparr> (Handle 0) = Some \<lparr>ident = ''k'', provider = Some (Handle 0), rebindable = True\<rparr>"
    by (simp add: connect_def)
  have c2: "connect \<lparr>ident = ''j'', provider = None, rebindable = False\<rparr> (Handle 0) = None"
    by (simp add: connect_def)
  have c3: "connect \<lparr>ident = ''j'', provider = Some (Handle 1), rebindable = False\<rparr> (Handle 0) = None"
    by (simp add: connect_def)
  have q1: "provider \<lparr>ident = ''k'', provider = None, rebindable = True\<rparr> = None"
    by simp
  have q2: "provider \<lparr>ident = ''j'', provider = None, rebindable = False\<rparr> = None"
    by simp
  have q3: "provider \<lparr>ident = ''j'', provider = Some (Handle 1), rebindable = False\<rparr> = Some (Handle 1)"
    by simp
  note a = registerSigner_algorithm [OF resolveDomain_Num,
      of "(run newMultiProvider [RegisterDomain \<lparr>id' = 1, name = ''alpha''\<rparr>])" 1 "\<lparr>ident = ''k'', provider = None, rebindable = True\<rparr>", THEN conjunct1, THEN mp, OF conjI [OF p0 q1]]
  note b = registerSigner_algorithm [OF resolveDomain_Num,
      of "(run newMultiProvider [RegisterDomain \<lparr>id' = 1, name = ''alpha''\<rparr>, RegisterProvider (Num 1) (Handle 0)])" 1 "\<lparr>ident = ''k'', provider = None, rebindable = True\<rparr>" "Handle 0" "\<lparr>ident = ''k'', provider = Some (Handle 0), rebindable = True\<rparr>",
      THEN conjunct2, THEN conjunct1, THEN mp, OF conjI [OF p1 c1]]
  note c = registerSigner_algorithm [OF resolveDomain_Num,
      of "(run newMultiProvider [RegisterDomain \<lparr>id' = 1, name = ''alpha''\<rparr>, RegisterProvider (Num 1) (Handle 0)])" 1 "\<lparr>ident = ''j'', provider = None, rebindable = False\<rparr>" "Handle 0",
      THEN conjunct2, THEN conjunct2, THEN conjunct1, THEN mp, OF conjI [OF p1 conjI [OF c2 q2]]]
  note d = registerSigner_algorithm [OF resolveDomain_Num,
      of "(run newMultiProvider [RegisterDomain \<lparr>id' = 1, name = ''alpha''\<rparr>, RegisterProvider (Num 1) (Handle 0)])" 1 "\<lparr>ident = ''j'', provider = Some (Handle 1), rebindable = False\<rparr>" "Handle 0" _ "Handle 1" "[RegisterDomain \<lparr>id' = 1, name = ''alpha''\<rparr>, RegisterProvider (Num 1) (Handle 0)]" "\<lparr>id' = 1, name = ''alpha''\<rparr>",
      THEN conjunct2, THEN conjunct2, THEN conjunct2, THEN mp,
      OF conjI [OF disjI2 [OF conjI [OF p1 c3]] q3], THEN conjunct2, THEN mp, OF conjI [OF refl d1]]
  note e = registerSigner_algorithm [OF resolveDomain_Num,
      of "(run newMultiProvider [RegisterDomain \<lparr>id' = 1, name = ''alpha''\<rparr>])" 1 "\<lparr>ident = ''j'', provider = Some (Handle 1), rebindable = False\<rparr>" _ _ "Handle 1" "[RegisterDomain \<lparr>id' = 1, name = ''alpha''\<rparr>]" "\<lparr>id' = 1, name = ''alpha''\<rparr>",
      THEN conjunct2, THEN conjunct2, THEN conjunct2, THEN mp,
      OF conjI [OF disjI1 [OF p0] q3], THEN conjunct2, THEN mp, OF conjI [OF refl d0]]
  have b': "getSigner (snd (registerSigner (run newMultiProvider [RegisterDomain \<lparr>id' = 1, name = ''alpha''\<rparr>, RegisterProvider (Num 1) (Handle 0)]) (Num 1) \<lparr>ident = ''k'', provider = None, rebindable = True\<rparr>)) (Num 1)
     = Inr (Some \<lparr>ident = ''k'', provider = Some (Handle 0), rebindable = True\<rparr>)"
    using b by (simp add: getSigner_def getFromMap_def)
  show ?thesis
    using a b b' c c1 d e by (simp add: eval_defs)
qed

text \<open>
  With provider \<open>Handle 0\<close> registered for domain 1, registering a signer that cannot be
  rebound and carries \<open>Handle 1\<close> returns, and the provider of domain 1 is then
  \<open>Handle 1\<close>: the registered provider did not take precedence.
\<close>

theorem registerSigner_precedence_counterexample:
  "getProvider (run newMultiProvider [RegisterDomain \<lparr>id' = 1, name = ''alpha''\<rparr>, RegisterProvider (Num 1) (Handle 0)]) (Num 1) = Inr (Some (Handle 0)) \<and>
   fst (registerSigner (run newMultiProvider [RegisterDomain \<lparr>id' = 1, name = ''alpha''\<rparr>, RegisterProvider (Num 1) (Handle 0)]) (Num 1) \<lparr>ident = ''j'', provider = Some (Handle 1), rebindable = False\<rparr>) = Returned \<and>
   getProvider (snd (registerSigner (run newMultiProvider [RegisterDomain \<lparr>id' = 1, name = ''alpha''\<rparr>, RegisterProvider (Num 1) (Handle 0)]) (Num 1) \<lparr>ident = ''j'', provider = Some (Handle 1), rebindable = False\<rparr>)) (Num 1)
     = Inr (Some (Handle 1)) \<and>
   getProvider (snd (registerSigner (run newMultiProvider [RegisterDomain \<lparr>id' = 1, name = ''alpha''\<rparr>, RegisterProvider (Num 1) (Handle 0)]) (Num 1) \<lparr>ident = ''j'', provider = Some (Handle 1), rebindable = False\<rparr>)) (Num 1)
     \<noteq> Inr (Some (Handle 0))"
  by (simp add: eval_defs)

subsection \<open>C3: registering a provider twice, and over a signer\<close>

text \<open>
  Claim C3. In a registry reached by public calls: when \<open>registerProvider(d, P1)\<close>
  returns, \<open>registerProvider(d, P2)\<close> after it returns too and \<open>getProvider(d)\<close> is
  then \<open>P2\<close>. When \<open>d\<close> has a registered signer \<open>S\<close> bound to a provider \<open>P1\<close>,
  \<open>registerProvider(d, P2)\<close> returns; afterwards \<open>getSigner(d)\<close> is \<open>S\<close> rebound to
  \<open>P2\<close> when \<open>S.connect(P2)\<close> succeeds, and is undefined when \<open>S.connect(P2)\<close> throws.
\<close>

theorem registerProvider_last_write_wins:
  assumes "this = run newMultiProvider cs"
  shows "(fst (registerProvider this nd P1) = Returned \<longrightarrow>
            fst (registerProvider (snd (registerProvider this nd P1)) nd P2) = Returned \<and>
            getProvider (snd (registerProvider (snd (registerProvider this nd P1)) nd P2)) nd
              = Inr (Some P2)) \<and>
         (getSigner this nd = Inr (Some S) \<and> provider S = Some P1 \<longrightarrow>
            fst (registerProvider this nd P2) = Returned \<and>
            (\<forall>S'. connect S P2 = Some S' \<longrightarrow>
               provider S' = Some P2 \<and>
               getSigner (snd (registerProvider this nd P2)) nd = Inr (Some S')) \<and>
            (connect S P2 = None \<longrightarrow>
               getSigner (snd (registerProvider this nd P2)) nd = Inr None) \<and>
            getProvider (snd (registerProvider this nd P2)) nd = Inr (Some P2))"
proof (intro conjI impI)
  have c: "consistent this"
    using assms by (simp add: consistent_reachable)
  {
    assume r: "fst (registerProvider this nd P1) = Returned"
    then obtain d D where d: "resolveDomain this nd = Inr d"
      and D: "map_of (domains this) d = Some D"
      using registerProvider_Returned_known by blast
    let ?this1 = "snd (registerProvider this nd P1)"
    have c1: "consistent ?this1"
      using c by (rule consistent_registerProvider)
    have d1: "resolveDomain ?this1 nd = Inr d"
      using d resolveDomain_cong_domains [of ?this1 this nd] by simp
    have D1: "map_of (domains ?this1) d = Some D"
      using D by simp
    note e = registerProvider_consistent [OF c1 d1 D1, of P2]
    show "fst (registerProvider ?this1 nd P2) = Returned"
      by (simp add: e)
    have "resolveDomain (snd (registerProvider ?this1 nd P2)) nd = Inr d"
      using d1 resolveDomain_cong_domains [of "snd (registerProvider ?this1 nd P2)" ?this1 nd]
      by simp
    then show "getProvider (snd (registerProvider ?this1 nd P2)) nd = Inr (Some P2)"
      by (simp add: getProvider_def getFromMap_def e)
  }
  {
    assume a: "getSigner this nd = Inr (Some S) \<and> provider S = Some P1"
    then obtain d where d: "resolveDomain this nd = Inr d" and s: "signers this d = Some S"
      by (auto simp: getSigner_def getFromMap_def split: sum.splits)
    have "d \<in> dom (signers this)"
      using s by blast
    moreover have "dom (signers this) \<subseteq> dom (map_of (domains this))"
      using c unfolding consistent_def by blast
    ultimately have "d \<in> dom (map_of (domains this))"
      by blast
    then obtain D where D: "map_of (domains this) d = Some D"
      by blast
    note e = registerProvider_consistent [OF c d D, of P2]
    have d2: "resolveDomain (snd (registerProvider this nd P2)) nd = Inr d"
      using d resolveDomain_cong_domains [of "snd (registerProvider this nd P2)" this nd]
      by simp
    show "fst (registerProvider this nd P2) = Returned"
      by (simp add: e)
    show "\<forall>S'. connect S P2 = Some S' \<longrightarrow>
               provider S' = Some P2 \<and>
               getSigner (snd (registerProvider this nd P2)) nd = Inr (Some S')"
      using d2 s by (auto simp: getSigner_def getFromMap_def e connect_def split: if_splits)
    show "getProvider (snd (registerProvider this nd P2)) nd = Inr (Some P2)"
      using d2 by (simp add: getProvider_def getFromMap_def e)
    {
      assume "connect S P2 = None"
      then show "getSigner (snd (registerProvider this nd P2)) nd = Inr None"
        using d2 s by (simp add: getSigner_def getFromMap_def e)
    }
  }
qed

theorem registerProvider_last_write_wins_witness:
  "fst (registerProvider (run newMultiProvider [RegisterDomain \<lparr>id' = 1, name = ''alpha''\<rparr>])
          (Num 1) (Handle 1)) = Returned \<and>
   getProvider
     (snd (registerProvider
        (snd (registerProvider (run newMultiProvider [RegisterDomain \<lparr>id' = 1, name = ''alpha''\<rparr>])
                (Num 1) (Handle 1)))
        (Num 1) (Handle 2)))
     (Num 1) = Inr (Some (Handle 2)) \<and>
   getSigner
     (run newMultiProvider
        [RegisterDomain \<lparr>id' = 1, name = ''alpha''\<rparr>,
         RegisterSigner (Num 1) \<lparr>ident = ''w'', provider = Some (Handle 1), rebindable = True\<rparr>])
     (Num 1) = Inr (Some \<lparr>ident = ''w'', provider = Some (Handle 1), rebindable = True\<rparr>) \<and>
   connect \<lparr>ident = ''w'', provider = Some (Handle 1), rebindable = True\<rparr> (Handle 2)
     = Some \<lparr>ident = ''w'', provider = Some (Handle 2), rebindable = True\<rparr> \<and>
   getSigner
     (snd (registerProvider
        (run newMultiProvider
           [RegisterDomain \<lparr>id' = 1, name = ''alpha''\<rparr>,
            RegisterSigner (Num 1) \<lparr>ident = ''w'', provider = Some (Handle 1), rebindable = True\<rparr>])
        (Num 1) (Handle 2)))
     (Num 1) = Inr (Some \<lparr>ident = ''w'', provider = Some (Handle 2), rebindable = True\<rparr>) \<and>
   getSigner
     (run newMultiProvider
        [RegisterDomain \<lparr>id' = 1, name = ''alpha''\<rparr>,
         RegisterSigner (Num 1) \<lparr>ident = ''j'', provider = Some (Handle 1), rebindable = False\<rparr>])
     (Num 1) = Inr (Some \<lparr>ident = ''j'', provider = Some (Handle 1), rebindable = False\<rparr>) \<and>
   connect \<lparr>ident = ''j'', provider = Some (Handle 1), rebindable = False\<rparr> (Handle 2) = None \<and>
   getSigner
     (snd (registerProvider
        (run newMultiProvider
           [RegisterDomain \<lparr>id' = 1, name = ''alpha''\<rparr>,
            RegisterSigner (Num 1) \<lparr>ident = ''j'', provider = Some (Handle 1), rebindable = False\<rparr>])
        (Num 1) (Handle 2)))
     (Num 1) = Inr None"
proof -
  have h1: "fst (registerProvider (run newMultiProvider [RegisterDomain \<lparr>id' = 1, name = ''alpha''\<rparr>])
          (Num 1) (Handle 1)) = Returned"
    by (simp add: eval_defs)
  have h2: "getSigner
     (run newMultiProvider
        [RegisterDomain \<lparr>id' = 1, name = ''alpha''\<rparr>,
         RegisterSigner (Num 1) \<lparr>ident = ''w'', provider = Some (Handle 1), rebindable = True\<rparr>])
     (Num 1) = Inr (Some \<lparr>ident = ''w'', provider = Some (Handle 1), rebindable = True\<rparr>)"
    by (simp add: eval_defs)
  have h3: "connect \<lparr>ident = ''w'', provider = Some (Handle 1), rebindable = True\<rparr> (Handle 2)
     = Some \<lparr>ident = ''w'', provider = Some (Handle 2), rebindable = True\<rparr>"
    by (simp add: connect_def)
  have h4: "getSigner
     (run newMultiProvider
        [RegisterDomain \<lparr>id' = 1, name = ''alpha''\<rparr>,
         RegisterSigner (Num 1) \<lparr>ident = ''j'', provider = Some (Handle 1), rebindable = False\<rparr>])
     (Num 1) = Inr (Some \<lparr>ident = ''j'', provider = Some (Handle 1), rebindable = False\<rparr>)"
    by (simp add: eval_defs)
  have h5: "connect \<lparr>ident = ''j'', provider = Some (Handle 1), rebindable = False\<rparr> (Handle 2) = None"
    by (simp add: connect_def)
  note t1 = registerProvider_last_write_wins [OF refl,
      of "[RegisterDomain \<lparr>id' = 1, name = ''alpha''\<rparr>]" "Num 1" "Handle 1" "Handle 2"]
  note t2 = registerProvider_last_write_wins [OF refl,
      of "[RegisterDomain \<lparr>id' = 1, name = ''alpha''\<rparr>,
           RegisterSigner (Num 1) \<lparr>ident = ''w'', provider = Some (Handle 1), rebindable = True\<rparr>]"
         "Num 1" "Handle 1" "Handle 2"
         "\<lparr>ident = ''w'', provider = Some (Handle 1), rebindable = True\<rparr>"]
  note t3 = registerProvider_last_write_wins [OF refl,
      of "[RegisterDomain \<lparr>id' = 1, name = ''alpha''\<rparr>,
           RegisterSigner (Num 1) \<lparr>ident = ''j'', provider = Some (Handle 1), rebindable = False\<rparr>]"
         "Num 1" "Handle 1" "Handle 2"
         "\<lparr>ident = ''j'', provider = Some (Handle 1), rebindable = False\<rparr>"]
  show ?thesis
    using h1 h2 h3 h4 h5 t1 t2 t3 by simp
qed

subsection \<open>C4: removing a signer\<close>

text \<open>
  Claim C4. Where \<open>nameOrDomain\<close> resolves to \<open>d\<close>: \<open>unregisterSigner\<close> returns and
  changes nothing when no signer is stored for \<open>d\<close>. When a signer \<open>S\<close> is stored it throws
  the invariant violation exactly when \<open>S\<close> has no provider, and then changes nothing.
  Otherwise it returns, the signer entry is gone, and when no provider was stored for
  \<open>d\<close> before the call \<open>getProvider\<close> now gives the provider of \<open>S\<close>; a provider stored
  before stays.
\<close>

theorem unregisterSigner_cases:
  assumes "resolveDomain this nd = Inr d"
  shows "(signers this d = None \<longrightarrow> unregisterSigner this nd = (Returned, this)) \<and>
         (signers this d = Some S \<longrightarrow>
            (fst (unregisterSigner this nd) = Threw InvariantViolation \<longleftrightarrow> provider S = None) \<and>
            (provider S = None \<longrightarrow> snd (unregisterSigner this nd) = this) \<and>
            (provider S = Some p \<longrightarrow>
               fst (unregisterSigner this nd) = Returned \<and>
               signers (snd (unregisterSigner this nd)) = (signers this)(d := None) \<and>
               getSigner (snd (unregisterSigner this nd)) nd = Inr None \<and>
               (providers this d = None \<longrightarrow>
                  getProvider (snd (unregisterSigner this nd)) nd = Inr (Some p)) \<and>
               (providers this d = Some q \<longrightarrow>
                  getProvider (snd (unregisterSigner this nd)) nd = Inr (Some q))))"
proof -
  have u: "unregisterSigner this nd = unregisterSigner this (Num d)"
    using assms by (subst unregisterSigner_resolve) simp
  have r: "resolveDomain (snd (unregisterSigner this (Num d))) nd = Inr d"
    using assms resolveDomain_cong_domains [of "snd (unregisterSigner this (Num d))" this nd]
    by simp
  show ?thesis
    unfolding u getSigner_def getProvider_def getFromMap_def r
    by (simp add: unregisterSigner_Num split: option.splits)
qed

theorem unregisterSigner_cases_witness:
  "unregisterSigner newMultiProvider (Num 1) = (Returned, newMultiProvider) \<and>
   fst (unregisterSigner
     (newMultiProvider\<lparr>signers := [1 \<mapsto> \<lparr>ident = ''s'', provider = None, rebindable = False\<rparr>]\<rparr>)
     (Num 1)) = Threw InvariantViolation \<and>
   getSigner (snd (unregisterSigner
     (newMultiProvider\<lparr>signers := [1 \<mapsto> \<lparr>ident = ''s'', provider = Some (Handle 3), rebindable = False\<rparr>]\<rparr>)
     (Num 1))) (Num 1) = Inr None \<and>
   getProvider (snd (unregisterSigner
     (newMultiProvider\<lparr>signers := [1 \<mapsto> \<lparr>ident = ''s'', provider = Some (Handle 3), rebindable = False\<rparr>]\<rparr>)
     (Num 1))) (Num 1) = Inr (Some (Handle 3)) \<and>
   getProvider (snd (unregisterSigner
     (run newMultiProvider
        [RegisterDomain \<lparr>id' = 1, name = ''alpha''\<rparr>, RegisterProvider (Num 1) (Handle 0),
         RegisterSigner (Num 1) \<lparr>ident = ''s'', provider = Some (Handle 3), rebindable = True\<rparr>])
     (Num 1))) (Num 1) = Inr (Some (Handle 0))"
proof -
  have h1: "signers newMultiProvider 1 = None"
    by (simp add: newMultiProvider_def)
  have h2: "signers (newMultiProvider\<lparr>signers := [1 \<mapsto> \<lparr>ident = ''s'', provider = None, rebindable = False\<rparr>]\<rparr>) 1
              = Some \<lparr>ident = ''s'', provider = None, rebindable = False\<rparr>"
    by simp
  have h3: "signers (newMultiProvider\<lparr>signers := [1 \<mapsto> \<lparr>ident = ''s'', provider = Some (Handle 3), rebindable = False\<rparr>]\<rparr>) 1
              = Some \<lparr>ident = ''s'', provider = Some (Handle 3), rebindable = False\<rparr>"
    by simp
  have h4: "providers (newMultiProvider\<lparr>signers := [1 \<mapsto> \<lparr>ident = ''s'', provider = Some (Handle 3), rebindable = False\<rparr>]\<rparr>) 1
              = None"
    by (simp add: newMultiProvider_def)
  have h5: "signers (run newMultiProvider
        [RegisterDomain \<lparr>id' = 1, name = ''alpha''\<rparr>, RegisterProvider (Num 1) (Handle 0),
         RegisterSigner (Num 1) \<lparr>ident = ''s'', provider = Some (Handle 3), rebindable = True\<rparr>]) 1
              = Some \<lparr>ident = ''s'', provider = Some (Handle 0), rebindable = True\<rparr>"
    by (simp add: eval_defs)
  have h6: "providers (run newMultiProvider
        [RegisterDomain \<lparr>id' = 1, name = ''alpha''\<rparr>, RegisterProvider (Num 1) (Handle 0),
         RegisterSigner (Num 1) \<lparr>ident = ''s'', provider = Some (Handle 3), rebindable = True\<rparr>]) 1
              = Some (Handle 0)"
    by (simp add: eval_defs)
  note t1 = unregisterSigner_cases [OF resolveDomain_Num, of newMultiProvider 1]
  note t2 = unregisterSigner_cases [OF resolveDomain_Num,
      of "newMultiProvider\<lparr>signers := [1 \<mapsto> \<lparr>ident = ''s'', provider = None, rebindable = False\<rparr>]\<rparr>" 1
         "\<lparr>ident = ''s'', provider = None, rebindable = False\<rparr>"]
  note t3 = unregisterSigner_cases [OF resolveDomain_Num,
      of "newMultiProvider\<lparr>signers := [1 \<mapsto> \<lparr>ident = ''s'', provider = Some (Handle 3), rebindable = False\<rparr>]\<rparr>" 1
         "\<lparr>ident = ''s'', provider = Some (Handle 3), rebindable = False\<rparr>" "Handle 3"]
  note t4 = unregisterSigner_cases [OF resolveDomain_Num,
      of "run newMultiProvider
        [RegisterDomain \<lparr>id' = 1, name = ''alpha''\<rparr>, RegisterProvider (Num 1) (Handle 0),
         RegisterSigner (Num 1) \<lparr>ident = ''s'', provider = Some (Handle 3), rebindable = True\<rparr>]" 1
         "\<lparr>ident = ''s'', provider = Some (Handle 0), rebindable = True\<rparr>" "Handle 0" "Handle 0"]
  show ?thesis
    using h1 h2 h3 h4 h5 h6 t1 t2 t3 t4 by simp
qed

subsection \<open>C5: clearing all signers\<close>

text \<open>
  Claim C5. In a registry reached by public calls, \<open>clearSigners()\<close> returns, leaves
  \<open>domainNumbers\<close> as it was, and afterwards \<open>getSigner(d)\<close> is undefined for every
  number \<open>d\<close>, registered or not. Every provider is kept, and a domain that had a signer
  but no provider would get the signer's provider, as \<open>unregisterSigner\<close> does.
\<close>

theorem clearSigners_effect:
  assumes "this = run newMultiProvider cs"
  shows "fst (clearSigners this) = Returned \<and>
         domainNumbers (snd (clearSigners this)) = domainNumbers this \<and>
         (\<forall>d. getSigner (snd (clearSigners this)) (Num d) = Inr None) \<and>
         (\<forall>d. providers (snd (clearSigners this)) d =
                (case providers this d of
                   Some q \<Rightarrow> Some q
                 | None \<Rightarrow> (case signers this d of None \<Rightarrow> None | Some s \<Rightarrow> provider s)))"
proof -
  have c: "consistent this"
    using assms by (simp add: consistent_reachable)
  have s: "\<forall>k s. signers this k = Some s \<longrightarrow> provider s \<noteq> None"
    using c unfolding consistent_def by blast
  have keys: "dom (map_of (domains this)) = set (domainNumbers this)"
    by (simp add: domainNumbers_def dom_map_of_conv_image_fst)
  have out_p: "providers this k = None" if "k \<notin> set (domainNumbers this)" for k
    using c that unfolding consistent_def keys by blast
  have out_s: "signers this k = None" if "k \<notin> set (domainNumbers this)" for k
    using c that unfolding consistent_def keys by blast
  note e = forEach_unregisterSigner_result [OF s, of "domainNumbers this"]
  have dn: "domainNumbers (this\<lparr>signers := a, providers := b\<rparr>) = domainNumbers this" for a b
    by (simp add: domainNumbers_def)
  show ?thesis
    unfolding clearSigners_def e
    by (auto simp: getSigner_def getFromMap_def dn out_p out_s split: option.splits)
qed

theorem clearSigners_effect_witness:
  "signers (run newMultiProvider
      [RegisterDomain \<lparr>id' = 1, name = ''alpha''\<rparr>, RegisterDomain \<lparr>id' = 2, name = ''beta''\<rparr>,
       RegisterProvider (Num 2) (Handle 0),
       RegisterSigner (Num 1) \<lparr>ident = ''j'', provider = Some (Handle 1), rebindable = False\<rparr>,
       RegisterWalletSigner (Num 2) ''k'']) 2
     = Some \<lparr>ident = ''k'', provider = Some (Handle 0), rebindable = True\<rparr> \<and>
   fst (clearSigners (run newMultiProvider
      [RegisterDomain \<lparr>id' = 1, name = ''alpha''\<rparr>, RegisterDomain \<lparr>id' = 2, name = ''beta''\<rparr>,
       RegisterProvider (Num 2) (Handle 0),
       RegisterSigner (Num 1) \<lparr>ident = ''j'', provider = Some (Handle 1), rebindable = False\<rparr>,
       RegisterWalletSigner (Num 2) ''k''])) = Returned \<and>
   domainNumbers (snd (clearSigners (run newMultiProvider
      [RegisterDomain \<lparr>id' = 1, name = ''alpha''\<rparr>, RegisterDomain \<lparr>id' = 2, name = ''beta''\<rparr>,
       RegisterProvider (Num 2) (Handle 0),
       RegisterSigner (Num 1) \<lparr>ident = ''j'', provider = Some (Handle 1), rebindable = False\<rparr>,
       RegisterWalletSigner (Num 2) ''k'']))) = [1, 2] \<and>
   getSigner (snd (clearSigners (run newMultiProvider
      [RegisterDomain \<lparr>id' = 1, name = ''alpha''\<rparr>, RegisterDomain \<lparr>id' = 2, name = ''beta''\<rparr>,
       RegisterProvider (Num 2) (Handle 0),
       RegisterSigner (Num 1) \<lparr>ident = ''j'', provider = Some (Handle 1), rebindable = False\<rparr>,
       RegisterWalletSigner (Num 2) ''k'']))) (Num 2) = Inr None \<and>
   providers (snd (clearSigners (run newMultiProvider
      [RegisterDomain \<lparr>id' = 1, name = ''alpha''\<rparr>, RegisterDomain \<lparr>id' = 2, name = ''beta''\<rparr>,
       RegisterProvider (Num 2) (Handle 0),
       RegisterSigner (Num 1) \<lparr>ident = ''j'', provider = Some (Handle 1), rebindable = False\<rparr>,
       RegisterWalletSigner (Num 2) ''k'']))) 1 = Some (Handle 1)"
proof -
  have h1: "signers (run newMultiProvider
      [RegisterDomain \<lparr>id' = 1, name = ''alpha''\<rparr>, RegisterDomain \<lparr>id' = 2, name = ''beta''\<rparr>,
       RegisterProvider (Num 2) (Handle 0),
       RegisterSigner (Num 1) \<lparr>ident = ''j'', provider = Some (Handle 1), rebindable = False\<rparr>,
       RegisterWalletSigner (Num 2) ''k'']) 2
     = Some \<lparr>ident = ''k'', provider = Some (Handle 0), rebindable = True\<rparr>"
    by (simp add: eval_defs)
  have h2: "domainNumbers (run newMultiProvider
      [RegisterDomain \<lparr>id' = 1, name = ''alpha''\<rparr>, RegisterDomain \<lparr>id' = 2, name = ''beta''\<rparr>,
       RegisterProvider (Num 2) (Handle 0),
       RegisterSigner (Num 1) \<lparr>ident = ''j'', provider = Some (Handle 1), rebindable = False\<rparr>,
       RegisterWalletSigner (Num 2) ''k'']) = [1, 2]"
    by (simp add: eval_defs domainNumbers_def)
  have h3: "providers (run newMultiProvider
      [RegisterDomain \<lparr>id' = 1, name = ''alpha''\<rparr>, RegisterDomain \<lparr>id' = 2, name = ''beta''\<rparr>,
       RegisterProvider (Num 2) (Handle 0),
       RegisterSigner (Num 1) \<lparr>ident = ''j'', provider = Some (Handle 1), rebindable = False\<rparr>,
       RegisterWalletSigner (Num 2) ''k'']) 1 = Some (Handle 1)"
    by (simp add: eval_defs)
  show ?thesis
    using h1 h2 h3 clearSigners_effect [OF refl, of
      "[RegisterDomain \<lparr>id' = 1, name = ''alpha''\<rparr>, RegisterDomain \<lparr>id' = 2, name = ''beta''\<rparr>,
       RegisterProvider (Num 2) (Handle 0),
       RegisterSigner (Num 1) \<lparr>ident = ''j'', provider = Some (Handle 1), rebindable = False\<rparr>,
       RegisterWalletSigner (Num 2) ''k'']"]
    by simp
qed

subsection \<open>C6: resolving a name\<close>

text \<open>
  Claim C6, as the code has it. \<open>resolveDomain\<close> returns a number unchanged. For a
  string it returns the id of the first registered domain, in iteration order, whose
  name equals the string when both are lower-cased: for a registered domain \<open>D\<close> and any
  letter-casing \<open>s\<close> of its name the result is \<open>D.id\<close> provided no domain before \<open>D\<close> in
  iteration order has the same lower-cased name. A string that matches no registered
  domain gives \<open>DomainNotFound\<close>.
\<close>

theorem resolveDomain_first_match:
  "resolveDomain this (Num n) = Inr n \<and>
   (domains this = pre @ (k, D) # post \<and>
    (\<forall>e \<in> set pre. toLowerCase (name (snd e)) \<noteq> toLowerCase (name D)) \<and>
    toLowerCase s = toLowerCase (name D) \<longrightarrow>
      resolveDomain this (Name s) = Inr (id' D)) \<and>
   ((\<forall>e \<in> set (domains this). toLowerCase (name (snd e)) \<noteq> toLowerCase s) \<longrightarrow>
      resolveDomain this (Name s) = Inl DomainNotFound)"
proof (intro conjI impI)
  show "resolveDomain this (Num n) = Inr n"
    by simp
next
  assume a: "domains this = pre @ (k, D) # post \<and>
    (\<forall>e \<in> set pre. toLowerCase (name (snd e)) \<noteq> toLowerCase (name D)) \<and>
    toLowerCase s = toLowerCase (name D)"
  then have "filter (\<lambda>domain. toLowerCase (name domain) = toLowerCase s) (map snd pre) = []"
    by (auto simp: filter_empty_conv)
  then show "resolveDomain this (Name s) = Inr (id' D)"
    using a by (simp add: resolveDomain_def)
next
  assume "\<forall>e \<in> set (domains this). toLowerCase (name (snd e)) \<noteq> toLowerCase s"
  then have "filter (\<lambda>domain. toLowerCase (name domain) = toLowerCase s)
               (map snd (domains this)) = []"
    by (auto simp: filter_empty_conv)
  then show "resolveDomain this (Name s) = Inl DomainNotFound"
    by (simp add: resolveDomain_def)
qed

theorem resolveDomain_first_match_witness:
  "domains (run newMultiProvider
      [RegisterDomain \<lparr>id' = 1, name = ''alpha''\<rparr>, RegisterDomain \<lparr>id' = 2, name = ''Beta''\<rparr>])
     = [(1, \<lparr>id' = 1, name = ''alpha''\<rparr>)] @ (2, \<lparr>id' = 2, name = ''Beta''\<rparr>) # [] \<and>
   toLowerCase ''bETA'' = toLowerCase (name \<lparr>id' = 2, name = ''Beta''\<rparr>) \<and>
   resolveDomain (run newMultiProvider
      [RegisterDomain \<lparr>id' = 1, name = ''alpha''\<rparr>, RegisterDomain \<lparr>id' = 2, name = ''Beta''\<rparr>])
     (Name ''bETA'') = Inr 2 \<and>
   resolveDomain (run newMultiProvider
      [RegisterDomain \<lparr>id' = 1, name = ''alpha''\<rparr>, RegisterDomain \<lparr>id' = 2, name = ''Beta''\<rparr>])
     (Name ''gamma'') = Inl DomainNotFound"
proof -
  have h1: "domains (run newMultiProvider
      [RegisterDomain \<lparr>id' = 1, name = ''alpha''\<rparr>, RegisterDomain \<lparr>id' = 2, name = ''Beta''\<rparr>])
     = [(1, \<lparr>id' = 1, name = ''alpha''\<rparr>)] @ (2, \<lparr>id' = 2, name = ''Beta''\<rparr>) # []"
    by (simp add: eval_defs)
  have h2: "\<forall>e \<in> set [(1::int, \<lparr>id' = 1, name = ''alpha''\<rparr>)].
              toLowerCase (name (snd e)) \<noteq> toLowerCase (name \<lparr>id' = 2, name = ''Beta''\<rparr>)"
    by (simp add: toLowerCase_examples)
  have h3: "toLowerCase ''bETA'' = toLowerCase (name \<lparr>id' = 2, name = ''Beta''\<rparr>)"
    by (simp add: toLowerCase_examples)
  have h4: "\<forall>e \<in> set (domains (run newMultiProvider
      [RegisterDomain \<lparr>id' = 1, name = ''alpha''\<rparr>, RegisterDomain \<lparr>id' = 2, name = ''Beta''\<rparr>])).
              toLowerCase (name (snd e)) \<noteq> toLowerCase ''gamma''"
    unfolding h1 by (simp add: toLowerCase_examples)
  note t1 = resolveDomain_first_match [of _ _ "[(1, \<lparr>id' = 1, name = ''alpha''\<rparr>)]" 2
      "\<lparr>id' = 2, name = ''Beta''\<rparr>" "[]" "''bETA''", THEN conjunct2, THEN conjunct1, THEN mp,
      OF conjI [OF h1 conjI [OF h2 h3]]]
  note t2 = resolveDomain_first_match [of _ _ _ _ _ _ "''gamma''", THEN conjunct2, THEN conjunct2,
      THEN mp, OF h4]
  show ?thesis
    using h1 h3 t1 t2 by simp
qed

text \<open>
  With two registered domains of the same name the second one is registered, and its
  name resolves to the id of the first.
\<close>

theorem resolveDomain_duplicate_name_counterexample:
  "(2, \<lparr>id' = 2, name = ''alpha''\<rparr>) \<in> set (domains (run newMultiProvider
      [RegisterDomain \<lparr>id' = 1, name = ''alpha''\<rparr>, RegisterDomain \<lparr>id' = 2, name = ''alpha''\<rparr>])) \<and>
   resolveDomain (run newMultiProvider
      [RegisterDomain \<lparr>id' = 1, name = ''alpha''\<rparr>, RegisterDomain \<lparr>id' = 2, name = ''alpha''\<rparr>])
     (Name (name \<lparr>id' = 2, name = ''alpha''\<rparr>)) = Inr 1 \<and>
   resolveDomain (run newMultiProvider
      [RegisterDomain \<lparr>id' = 1, name = ''alpha''\<rparr>, RegisterDomain \<lparr>id' = 2, name = ''alpha''\<rparr>])
     (Name (name \<lparr>id' = 2, name = ''alpha''\<rparr>)) \<noteq> Inr (id' \<lparr>id' = 2, name = ''alpha''\<rparr>)"
  by (simp add: eval_defs resolveDomain_def)

subsection \<open>C7: operations given a number\<close>

text \<open>
  Claim C7, as the code has it. A number is resolved without a look at the domains, and
  the lookups, \<open>unregisterSigner\<close>, \<open>registerOverrides\<close> and \<open>registerConfirmations\<close> work
  on the raw id whether or not it is registered. \<open>registerProvider\<close> and
  \<open>registerRpcProvider\<close> ask \<open>mustGetDomain\<close> first and throw \<open>NotFound "Domain"\<close> for a
  number that is not registered. In a registry reached by public calls
  \<open>registerSigner\<close> with a number that is not registered throws too: \<open>MissingProvider\<close>
  when the signer has no provider, else the \<open>NotFound "Domain"\<close> of \<open>registerProvider\<close>.
\<close>

theorem numeric_reference_operations:
  "resolveDomain this (Num n) = Inr n \<and>
   knownDomain this (Num n) \<and>
   getProvider this (Num n) = Inr (providers this n) \<and>
   getSigner this (Num n) = Inr (signers this n) \<and>
   getOverrides this (Num n) = Inr (case overrides this n of None \<Rightarrow> [] | Some b \<Rightarrow> b) \<and>
   getConfirmations this (Num n) = Inr (case confirmations this n of None \<Rightarrow> 0 | Some c \<Rightarrow> c) \<and>
   registerOverrides this (Num n) ov
     = (Returned, this\<lparr>overrides := (overrides this)(n \<mapsto> ov)\<rparr>) \<and>
   registerConfirmations this (Num n) m
     = (Returned, this\<lparr>confirmations := (confirmations this)(n \<mapsto> m)\<rparr>) \<and>
   (signers this n = None \<longrightarrow> unregisterSigner this (Num n) = (Returned, this)) \<and>
   (signers this n = Some S \<and> provider S = Some q \<longrightarrow>
      fst (unregisterSigner this (Num n)) = Returned) \<and>
   (map_of (domains this) n = None \<longrightarrow>
      registerProvider this (Num n) p = (Threw (NotFound ''Domain''), this) \<and>
      registerRpcProvider this (Num n) rpc = (Threw (NotFound ''Domain''), this)) \<and>
   (this = run newMultiProvider cs \<and> map_of (domains this) n = None \<longrightarrow>
      registerSigner this (Num n) S' =
        (Threw (if provider S' = None then MissingProvider else NotFound ''Domain''), this))"
proof -
  have reads: "resolveDomain this (Num n) = Inr n \<and>
     knownDomain this (Num n) \<and>
     getProvider this (Num n) = Inr (providers this n) \<and>
     getSigner this (Num n) = Inr (signers this n) \<and>
     getOverrides this (Num n) = Inr (case overrides this n of None \<Rightarrow> [] | Some b \<Rightarrow> b) \<and>
     getConfirmations this (Num n) = Inr (case confirmations this n of None \<Rightarrow> 0 | Some c \<Rightarrow> c)"
    by (simp add: knownDomain_def getProvider_def getSigner_def getOverrides_def
          getConfirmations_def getFromMap_def split: option.splits)
  have writes: "registerOverrides this (Num n) ov
       = (Returned, this\<lparr>overrides := (overrides this)(n \<mapsto> ov)\<rparr>) \<and>
     registerConfirmations this (Num n) m
       = (Returned, this\<lparr>confirmations := (confirmations this)(n \<mapsto> m)\<rparr>)"
    by (simp add: registerOverrides_def registerConfirmations_def setMap_def)
  have unreg: "(signers this n = None \<longrightarrow> unregisterSigner this (Num n) = (Returned, this)) \<and>
     (signers this n = Some S \<and> provider S = Some q \<longrightarrow>
        fst (unregisterSigner this (Num n)) = Returned)"
    by (simp add: unregisterSigner_Num)
  have prov: "map_of (domains this) n = None \<longrightarrow>
      registerProvider this (Num n) p = (Threw (NotFound ''Domain''), this) \<and>
      registerRpcProvider this (Num n) rpc = (Threw (NotFound ''Domain''), this)"
    by (simp add: registerRpcProvider_def registerProvider_Num_unregistered)
  have sign: "this = run newMultiProvider cs \<and> map_of (domains this) n = None \<longrightarrow>
      registerSigner this (Num n) S' =
        (Threw (if provider S' = None then MissingProvider else NotFound ''Domain''), this)"
  proof
    assume a: "this = run newMultiProvider cs \<and> map_of (domains this) n = None"
    then have c: "consistent this"
      by (simp add: consistent_reachable)
    have u: "map_of (domains this) n = None"
      using a by blast
    have "providers this n = None"
      using c u by (rule consistent_unregistered_no_provider)
    then show "registerSigner this (Num n) S' =
        (Threw (if provider S' = None then MissingProvider else NotFound ''Domain''), this)"
      using u
      by (auto simp: registerSigner_def registerSigner_fallback_def
            registerProvider_Num_unregistered)
  qed
  show ?thesis
    using reads writes unreg prov sign by blast
qed

theorem numeric_reference_operations_witness:
  "map_of (domains (run newMultiProvider [])) 5 = None \<and>
   getProvider (run newMultiProvider []) (Num 5) = Inr None \<and>
   unregisterSigner (run newMultiProvider []) (Num 5) = (Returned, run newMultiProvider []) \<and>
   fst (registerOverrides (run newMultiProvider []) (Num 5) [(''gasLimit'', 7)]) = Returned \<and>
   registerProvider (run newMultiProvider []) (Num 5) (Handle 0)
     = (Threw (NotFound ''Domain''), run newMultiProvider []) \<and>
   registerSigner (run newMultiProvider []) (Num 5)
       \<lparr>ident = ''s'', provider = Some (Handle 0), rebindable = False\<rparr>
     = (Threw (NotFound ''Domain''), run newMultiProvider []) \<and>
   registerSigner (run newMultiProvider []) (Num 5) (Wallet ''k'')
     = (Threw MissingProvider, run newMultiProvider []) \<and>
   fst (unregisterSigner
     (newMultiProvider\<lparr>signers := [5 \<mapsto> \<lparr>ident = ''s'', provider = Some (Handle 3), rebindable = False\<rparr>]\<rparr>)
     (Num 5)) = Returned"
proof -
  have h1: "map_of (domains (run newMultiProvider [])) 5 = None"
    by (simp add: newMultiProvider_def)
  have h2: "signers (run newMultiProvider []) 5 = None"
    by (simp add: newMultiProvider_def)
  have h3: "providers (run newMultiProvider []) 5 = None"
    by (simp add: newMultiProvider_def)
  have h4: "signers (newMultiProvider\<lparr>signers := [5 \<mapsto> \<lparr>ident = ''s'', provider = Some (Handle 3), rebindable = False\<rparr>]\<rparr>) 5
      = Some \<lparr>ident = ''s'', provider = Some (Handle 3), rebindable = False\<rparr>"
    by simp
  note t1 = numeric_reference_operations [of "run newMultiProvider []" 5 "[(''gasLimit'', 7)]" _ _ _
      "Handle 0" _ "[]" "\<lparr>ident = ''s'', provider = Some (Handle 0), rebindable = False\<rparr>"]
  note t2 = numeric_reference_operations [of "run newMultiProvider []" 5 _ _ _ _
      _ _ "[]" "Wallet ''k''"]
  note t3 = numeric_reference_operations [of
      "newMultiProvider\<lparr>signers := [5 \<mapsto> \<lparr>ident = ''s'', provider = Some (Handle 3), rebindable = False\<rparr>]\<rparr>"
      5 _ _ "\<lparr>ident = ''s'', provider = Some (Handle 3), rebindable = False\<rparr>" "Handle 3"]
  show ?thesis
    using h1 h2 h3 h4 t1 t2 t3 by (simp add: Wallet_def)
qed

text \<open>
  On a new registry, where no domain is registered, \<open>registerProvider(5, P)\<close> throws,
  and so does \<open>registerSigner(5, S)\<close> for a signer that carries a provider.
\<close>

theorem registerProvider_unregistered_number_counterexample:
  "fst (registerProvider newMultiProvider (Num 5) (Handle 0)) = Threw (NotFound ''Domain'') \<and>
   fst (registerSigner newMultiProvider (Num 5)
          \<lparr>ident = ''s'', provider = Some (Handle 0), rebindable = False\<rparr>)
     = Threw (NotFound ''Domain'')"
  by (simp add: eval_defs)

subsection \<open>C8: the scenario of a signer that cannot be rebound\<close>

text \<open>
  Claim C8, as the code has it. After \<open>registerDomain({id: 1, name: "alpha"})\<close> and
  \<open>registerProvider(1, P)\<close>, \<open>registerSigner("Alpha", S)\<close> for a signer \<open>S\<close> that carries
  \<open>P\<close> and throws from \<open>connect\<close> returns without an error, and \<open>getSigner(1)\<close> is then
  \<open>S\<close> itself, which carries \<open>P\<close>; \<open>getProvider(1)\<close> is still \<open>P\<close>. The \<open>try\<close> block of
  the branch for a registered provider stores nothing: its \<open>connect\<close> throws, and the
  signer is stored by the statements after it.
\<close>

theorem scenario_fixed_signer:
  "fst (registerSigner
          (run newMultiProvider
             [RegisterDomain \<lparr>id' = 1, name = ''alpha''\<rparr>, RegisterProvider (Num 1) P])
          (Name ''Alpha'') \<lparr>ident = a, provider = Some P, rebindable = False\<rparr>) = Returned \<and>
   getSigner
     (snd (registerSigner
          (run newMultiProvider
             [RegisterDomain \<lparr>id' = 1, name = ''alpha''\<rparr>, RegisterProvider (Num 1) P])
          (Name ''Alpha'') \<lparr>ident = a, provider = Some P, rebindable = False\<rparr>))
     (Num 1) = Inr (Some \<lparr>ident = a, provider = Some P, rebindable = False\<rparr>) \<and>
   getProvider
     (snd (registerSigner
          (run newMultiProvider
             [RegisterDomain \<lparr>id' = 1, name = ''alpha''\<rparr>, RegisterProvider (Num 1) P])
          (Name ''Alpha'') \<lparr>ident = a, provider = Some P, rebindable = False\<rparr>))
     (Num 1) = Inr (Some P) \<and>
   registerSigner_try
     (run newMultiProvider
        [RegisterDomain \<lparr>id' = 1, name = ''alpha''\<rparr>, RegisterProvider (Num 1) P])
     1 \<lparr>ident = a, provider = Some P, rebindable = False\<rparr> P
     = Inl \<lparr>ident = a, provider = Some P, rebindable = False\<rparr> \<and>
   registerSigner
     (run newMultiProvider
        [RegisterDomain \<lparr>id' = 1, name = ''alpha''\<rparr>, RegisterProvider (Num 1) P])
     (Name ''Alpha'') \<lparr>ident = a, provider = Some P, rebindable = False\<rparr>
     = registerSigner_fallback
         (run newMultiProvider
            [RegisterDomain \<lparr>id' = 1, name = ''alpha''\<rparr>, RegisterProvider (Num 1) P])
         1 \<lparr>ident = a, provider = Some P, rebindable = False\<rparr>"
  by (simp add: eval_defs resolveDomain_def toLowerCase_examples)

theorem scenario_fixed_signer_witness:
  "getSigner
     (snd (registerSigner
          (run newMultiProvider
             [RegisterDomain \<lparr>id' = 1, name = ''alpha''\<rparr>, RegisterProvider (Num 1) (Handle 0)])
          (Name ''Alpha'') \<lparr>ident = ''s'', provider = Some (Handle 0), rebindable = False\<rparr>))
     (Num 1) = Inr (Some \<lparr>ident = ''s'', provider = Some (Handle 0), rebindable = False\<rparr>)"
  using scenario_fixed_signer [of "Handle 0" "''s''"] by blast

text \<open>
  In the scenario it is not so that the call returns with the registry that the \<open>try\<close>
  block of the branch for a registered provider produces.
\<close>

theorem scenario_fixed_signer_counterexample:
  "\<not> (fst (registerSigner
             (run newMultiProvider
                [RegisterDomain \<lparr>id' = 1, name = ''alpha''\<rparr>, RegisterProvider (Num 1) (Handle 0)])
             (Name ''Alpha'') \<lparr>ident = ''s'', provider = Some (Handle 0), rebindable = False\<rparr>)
          = Returned \<and>
        registerSigner_try
          (run newMultiProvider
             [RegisterDomain \<lparr>id' = 1, name = ''alpha''\<rparr>, RegisterProvider (Num 1) (Handle 0)])
          1 \<lparr>ident = ''s'', provider = Some (Handle 0), rebindable = False\<rparr> (Handle 0)
          = Inr (snd (registerSigner
             (run newMultiProvider
                [RegisterDomain \<lparr>id' = 1, name = ''alpha''\<rparr>, RegisterProvider (Num 1) (Handle 0)])
             (Name ''Alpha'') \<lparr>ident = ''s'', provider = Some (Handle 0), rebindable = False\<rparr>)))"
  by (simp add: eval_defs resolveDomain_def toLowerCase_examples)

subsection \<open>C9: defaults of the policy store\<close>

text \<open>
  Claim C9. For a domain id without a stored policy, \<open>getOverrides\<close> returns the empty
  bag and \<open>getConfirmations\<close> returns \<open>0\<close>; the id need not be a registered
  domain. In particular this is so for every id after any sequence of public calls none
  of which is \<open>registerOverrides\<close> or \<open>registerConfirmations\<close>.
\<close>

theorem policy_defaults:
  "(overrides this d = None \<longrightarrow> getOverrides this (Num d) = Inr []) \<and>
   (confirmations this d = None \<longrightarrow> getConfirmations this (Num d) = Inr 0) \<and>
   ((\<forall>c \<in> set cs. (\<forall>nd ov. c \<noteq> RegisterOverrides nd ov) \<and>
                     (\<forall>nd n. c \<noteq> RegisterConfirmations nd n)) \<longrightarrow>
      getOverrides (run newMultiProvider cs) (Num d) = Inr [] \<and>
      getConfirmations (run newMultiProvider cs) (Num d) = Inr 0)"
proof (intro conjI impI)
  assume "\<forall>c \<in> set cs. (\<forall>nd ov. c \<noteq> RegisterOverrides nd ov) \<and>
                         (\<forall>nd n. c \<noteq> RegisterConfirmations nd n)"
  then have e: "overrides (run newMultiProvider cs) = overrides newMultiProvider \<and>
                confirmations (run newMultiProvider cs) = confirmations newMultiProvider"
    by (rule policy_run)
  show "getOverrides (run newMultiProvider cs) (Num d) = Inr []"
    by (simp add: getOverrides_def getFromMap_def e) (simp add: newMultiProvider_def)
  show "getConfirmations (run newMultiProvider cs) (Num d) = Inr 0"
    by (simp add: getConfirmations_def getFromMap_def e) (simp add: newMultiProvider_def)
qed (simp_all add: getOverrides_def getConfirmations_def getFromMap_def)

theorem policy_defaults_witness:
  "overrides newMultiProvider 7 = None \<and> confirmations newMultiProvider 7 = None \<and>
   map_of (domains newMultiProvider) 7 = None \<and>
   getOverrides newMultiProvider (Num 7) = Inr [] \<and>
   getConfirmations newMultiProvider (Num 7) = Inr 0 \<and>
   getOverrides
     (run newMultiProvider
        [RegisterDomain \<lparr>id' = 1, name = ''alpha''\<rparr>, RegisterProvider (Num 1) (Handle 0)])
     (Num 1) = Inr [] \<and>
   getConfirmations
     (run newMultiProvider
        [RegisterDomain \<lparr>id' = 1, name = ''alpha''\<rparr>, RegisterProvider (Num 1) (Handle 0)])
     (Num 7) = Inr 0"
proof -
  have h: "overrides newMultiProvider 7 = None \<and> confirmations newMultiProvider 7 = None \<and>
           map_of (domains newMultiProvider) 7 = None"
    by (simp add: newMultiProvider_def)
  have f: "\<forall>c \<in> set [RegisterDomain \<lparr>id' = 1, name = ''alpha''\<rparr>,
                        RegisterProvider (Num 1) (Handle 0)].
             (\<forall>nd ov. c \<noteq> RegisterOverrides nd ov) \<and> (\<forall>nd n. c \<noteq> RegisterConfirmations nd n)"
    by simp
  note t1 = policy_defaults [of newMultiProvider 7]
  note t2 = policy_defaults [of _ 1 "[RegisterDomain \<lparr>id' = 1, name = ''alpha''\<rparr>,
      RegisterProvider (Num 1) (Handle 0)]", THEN conjunct2, THEN conjunct2, THEN mp, OF f]
  note t3 = policy_defaults [of _ 7 "[RegisterDomain \<lparr>id' = 1, name = ''alpha''\<rparr>,
      RegisterProvider (Num 1) (Handle 0)]", THEN conjunct2, THEN conjunct2, THEN mp, OF f]
  show ?thesis
    using h t1 t2 t3 by simp
qed

subsection \<open>C10: what \<open>missingProviders\<close> lists\<close>

text \<open>
  Claim C10. The getter \<open>missingProviders\<close> returns the registered domain numbers, in
  iteration order, for which the map of providers has an entry; a registered domain
  without a provider is not listed.
\<close>

theorem missingProviders_lists_present:
  "missingProviders this = filter (\<lambda>n. providers this n \<noteq> None) (domainNumbers this) \<and>
   set (missingProviders this) = set (domainNumbers this) \<inter> dom (providers this) \<and>
   (n \<in> set (domainNumbers this) \<and> providers this n = None \<longrightarrow> n \<notin> set (missingProviders this))"
  by (auto simp: missingProviders_def has_def)

theorem missingProviders_lists_present_witness:
  "2 \<in> set (domainNumbers (run newMultiProvider
      [RegisterDomain \<lparr>id' = 1, name = ''alpha''\<rparr>, RegisterDomain \<lparr>id' = 2, name = ''beta''\<rparr>,
       RegisterProvider (Num 1) (Handle 0)])) \<and>
   providers (run newMultiProvider
      [RegisterDomain \<lparr>id' = 1, name = ''alpha''\<rparr>, RegisterDomain \<lparr>id' = 2, name = ''beta''\<rparr>,
       RegisterProvider (Num 1) (Handle 0)]) 2 = None \<and>
   missingProviders (run newMultiProvider
      [RegisterDomain \<lparr>id' = 1, name = ''alpha''\<rparr>, RegisterDomain \<lparr>id' = 2, name = ''beta''\<rparr>,
       RegisterProvider (Num 1) (Handle 0)]) = [1]"
proof -
  have e: "run newMultiProvider
      [RegisterDomain \<lparr>id' = 1, name = ''alpha''\<rparr>, RegisterDomain \<lparr>id' = 2, name = ''beta''\<rparr>,
       RegisterProvider (Num 1) (Handle 0)] =
     \<lparr>domains = [(1, \<lparr>id' = 1, name = ''alpha''\<rparr>), (2, \<lparr>id' = 2, name = ''beta''\<rparr>)],
      providers = [1 \<mapsto> Handle 0], signers = Map.empty, overrides = Map.empty,
      confirmations = Map.empty\<rparr>"
    by (simp add: newMultiProvider_def registerDomain_def registerProvider_unfold
          mustGetDomain_def mustGetFromMap_def getFromMap_def)
  show ?thesis
    using missingProviders_lists_present [of "run newMultiProvider
      [RegisterDomain \<lparr>id' = 1, name = ''alpha''\<rparr>, RegisterDomain \<lparr>id' = 2, name = ''beta''\<rparr>,
       RegisterProvider (Num 1) (Handle 0)]" 2]
    unfolding e by (simp add: domainNumbers_def)
qed

end
